theory Spec2Isabelle
  imports Main
begin

section \<open>Data model\<close>

text \<open>
  The platform keeps one record per event.  Two back ends implement the same services: the
  Supabase edge functions work on rows of the \<open>events\<close> table (snake case columns) and the
  Firebase cloud functions on documents of the \<open>events\<close> collection (camel case fields).
  Both are embedded here, each with the names of its own source.

  Timestamps are milliseconds since the epoch (what \<open>Date.getTime()\<close> returns), so the
  comparison of two \<open>Date\<close> objects is the comparison of two integers.  The clock is an
  explicit argument \<open>now\<close>.  The Supabase handlers read it once per invocation; the
  Firebase functions call \<open>new Date()\<close> several times within one invocation, and these
  readings are taken to be the same instant.  \<open>getHours()\<close> depends on the time zone of
  the host, so the current hour is an argument too.
\<close>

datatype EventStatus = Draft | Active | Expired | Cleaned

type_synonym timestamp = int

record analytics_blob =
  totalCaptures :: int
  peakHour :: "int option"
  lastCaptureAt :: "timestamp option"

text \<open>A row of the Supabase table \<open>events\<close> (the columns the services read or write).\<close>

record event_row =
  row_id :: string
  row_name :: string
  photo_limit :: int
  has_cloud_album :: bool
  start_date :: timestamp
  end_date :: timestamp
  row_status :: EventStatus
  capture_count :: int
  reserved_count :: int
  gallery_token :: string
  gallery_expires_at :: "timestamp option"
  row_analytics :: "analytics_blob option"

text \<open>
  A document of the Firestore collection \<open>events\<close>.  The functions guard
  \<open>reservedCount\<close>, \<open>galleryExpiresAt\<close> and \<open>analytics\<close> against a missing value
  (\<open>event.reservedCount || 0\<close>), so these fields are optional here.
\<close>

record Event =
  photoLimit :: int
  hasCloudAlbum :: bool
  startDate :: timestamp
  endDate :: timestamp
  status :: EventStatus
  captureCount :: int
  reservedCount :: "int option"
  galleryToken :: string
  galleryExpiresAt :: "timestamp option"
  analytics :: "analytics_blob option"
  updatedAt :: timestamp

text \<open>The \<open>event\<close> object of a response: capture count, photo limit and status.\<close>

datatype event_info =
  EventInfo (info_captureCount: int) (info_photoLimit: int) (info_status: EventStatus)

record ReserveCaptureResponse =
  success :: bool
  captureNumber :: "int option"
  message :: "string option"
  event :: "event_info option"

text \<open>Fifteen days in milliseconds: \<open>15 * 24 * 60 * 60 * 1000\<close>.\<close>

definition fifteen_days :: int where
  "fifteen_days = 15 * 24 * 60 * 60 * 1000"


section \<open>Reservation, Supabase edge function \<open>reserve-capture\<close>\<close>

text \<open>
  The table is a list of rows.  \<open>.eq('id', eventId).single()\<close> yields the row when exactly
  one row matches and an error otherwise; an update with filters rewrites every row that
  satisfies them.
\<close>

definition select_single :: "event_row list \<Rightarrow> string \<Rightarrow> event_row option" where
  "select_single tbl i =
     (case filter (\<lambda>r. row_id r = i) tbl of [r] \<Rightarrow> Some r | _ \<Rightarrow> None)"

definition update_rows ::
  "(event_row \<Rightarrow> bool) \<Rightarrow> (event_row \<Rightarrow> event_row) \<Rightarrow> event_row list \<Rightarrow> event_row list" where
  "update_rows P f tbl = map (\<lambda>r. if P r then f r else r) tbl"

text \<open>
  The handler of \<open>reserve-capture/index.ts\<close>.  It returns the HTTP status with the JSON
  body, and the table after the call.  The two results of the database client that the
  handler inspects are arguments: \<open>fetchError\<close> (the select failed) and \<open>updateError\<close>
  (the conditional update was reported as failed, in which case the row is not written).
  The result of the update of the auto-expire branch is not inspected by the handler; that
  update is taken to succeed.  An exception raised by the runtime (a request body that is
  not JSON, a lost connection) ends in the catch-all answer 500 of the handler and is not
  part of the model.

  The handler awaits the select and, later, an update; other calls may write in between.
  So the table the select saw (\<open>seen\<close>) and the table the update meets (\<open>tbl\<close>) are
  two arguments: every decision is taken on the row that was read, every write goes to
  the table as it is then.
\<close>

definition reserve_capture_on ::
  "timestamp \<Rightarrow> int \<Rightarrow> bool \<Rightarrow> bool \<Rightarrow> string \<Rightarrow> event_row list \<Rightarrow> event_row list
     \<Rightarrow> (nat \<times> ReserveCaptureResponse) \<times> event_row list" where
  "reserve_capture_on now currentHour fetchError updateError eventId seen tbl =
    (if eventId = [] then
       ((400, \<lparr>success = False, captureNumber = None,
               message = Some ''Event ID is required'', event = None\<rparr>), tbl)
     else
      (case (if fetchError then None else select_single seen eventId) of
        None \<Rightarrow>
          ((404, \<lparr>success = False, captureNumber = None,
                  message = Some ''Event not found'', event = None\<rparr>), tbl)
      | Some ev \<Rightarrow>
          if row_status ev \<noteq> Active then
            ((200, \<lparr>success = False, captureNumber = None,
                    message = Some ''Event is not active'',
                    event = Some (EventInfo (capture_count ev) (photo_limit ev) (row_status ev))\<rparr>),
             tbl)
          else if now < start_date ev then
            ((200, \<lparr>success = False, captureNumber = None,
                    message = Some ''Event has not started yet'', event = None\<rparr>), tbl)
          else if now > end_date ev then
            ((200, \<lparr>success = False, captureNumber = None,
                    message = Some ''Event has ended'', event = None\<rparr>),
             update_rows (\<lambda>r. row_id r = eventId)
               (\<lambda>r. r\<lparr>row_status := Expired,
                       gallery_expires_at := Some (now + fifteen_days)\<rparr>) tbl)
          else if capture_count ev \<ge> photo_limit ev then
            ((200, \<lparr>success = False, captureNumber = None,
                    message = Some ''Photo limit reached'',
                    event = Some (EventInfo (capture_count ev) (photo_limit ev) (row_status ev))\<rparr>),
             tbl)
          else
            (let newCaptureCount = capture_count ev + 1;
                 a0 = (case row_analytics ev of
                         Some a \<Rightarrow> a
                       | None \<Rightarrow> \<lparr>totalCaptures = 0, peakHour = Some currentHour,
                                   lastCaptureAt = Some now\<rparr>);
                 a1 = a0\<lparr>totalCaptures := totalCaptures a0 + 1,
                         lastCaptureAt := Some now, peakHour := Some currentHour\<rparr>;
                 shouldExpire = (newCaptureCount \<ge> photo_limit ev);
                 updateData = (\<lambda>r.
                   let r1 = r\<lparr>capture_count := newCaptureCount, row_analytics := Some a1\<rparr>
                   in if shouldExpire
                      then r1\<lparr>row_status := Expired,
                              gallery_expires_at := Some (now + fifteen_days)\<rparr>
                      else r1)
             in if updateError then
                  ((409, \<lparr>success = False, captureNumber = None,
                          message = Some ''Concurrent update conflict, please retry'',
                          event = None\<rparr>), tbl)
                else
                  ((200, \<lparr>success = True, captureNumber = Some newCaptureCount,
                          message = None,
                          event = Some (EventInfo newCaptureCount (photo_limit ev)
                                     (if shouldExpire then Expired else row_status ev))\<rparr>),
                   update_rows
                     (\<lambda>r. row_id r = eventId \<and> capture_count r = capture_count ev)
                     updateData tbl))))"

text \<open>A call that no other call interferes with reads and writes the same table.\<close>

definition reserve_capture ::
  "timestamp \<Rightarrow> int \<Rightarrow> bool \<Rightarrow> bool \<Rightarrow> string \<Rightarrow> event_row list
     \<Rightarrow> (nat \<times> ReserveCaptureResponse) \<times> event_row list" where
  "reserve_capture now currentHour fetchError updateError eventId tbl =
     reserve_capture_on now currentHour fetchError updateError eventId tbl tbl"


section \<open>Reservation, Firebase cloud functions\<close>

subsection \<open>Validation utilities (\<open>utils/validation\<close>)\<close>

definition isEventActive :: "timestamp \<Rightarrow> Event \<Rightarrow> bool" where
  "isEventActive now ev \<longleftrightarrow>
     status ev = Active \<and> now \<ge> startDate ev \<and> now \<le> endDate ev"

definition hasReachedLimit :: "Event \<Rightarrow> bool" where
  "hasReachedLimit ev \<longleftrightarrow> captureCount ev \<ge> photoLimit ev"

definition reserved_or_zero :: "Event \<Rightarrow> int" where
  "reserved_or_zero ev = (case reservedCount ev of None \<Rightarrow> 0 | Some n \<Rightarrow> n)"

definition hasAvailableSlots :: "Event \<Rightarrow> bool" where
  "hasAvailableSlots ev \<longleftrightarrow>
     (let totalUsed = captureCount ev + reserved_or_zero ev in totalUsed < photoLimit ev)"

record CaptureValidationResult =
  canCapture :: bool
  reason :: "string option"
  eventInfo :: "event_info option"

definition info_of :: "Event \<Rightarrow> event_info" where
  "info_of ev = EventInfo (captureCount ev) (photoLimit ev) (status ev)"

definition validateCapture :: "timestamp \<Rightarrow> Event option \<Rightarrow> CaptureValidationResult" where
  "validateCapture now evo =
    (case evo of
       None \<Rightarrow> \<lparr>canCapture = False, reason = Some ''Event not found'', eventInfo = None\<rparr>
     | Some ev \<Rightarrow>
        if status ev = Cleaned then
          \<lparr>canCapture = False, reason = Some ''Event has been cleaned up'',
           eventInfo = Some (info_of ev)\<rparr>
        else if status ev = Expired then
          \<lparr>canCapture = False, reason = Some ''Event has expired'',
           eventInfo = Some (info_of ev)\<rparr>
        else if \<not> isEventActive now ev then
          (if now < startDate ev then
             \<lparr>canCapture = False, reason = Some ''Event has not started yet'',
              eventInfo = Some (info_of ev)\<rparr>
           else
             \<lparr>canCapture = False, reason = Some ''Event has ended'',
              eventInfo = Some (info_of ev)\<rparr>)
        else if hasReachedLimit ev then
          \<lparr>canCapture = False, reason = Some ''Photo limit reached'',
           eventInfo = Some (info_of ev)\<rparr>
        else if \<not> hasAvailableSlots ev then
          \<lparr>canCapture = False, reason = Some ''No available slots (some are reserved)'',
           eventInfo = Some (info_of ev)\<rparr>
        else
          \<lparr>canCapture = True, reason = None, eventInfo = Some (info_of ev)\<rparr>)"

definition shouldExpireEvent :: "timestamp \<Rightarrow> Event \<Rightarrow> bool" where
  "shouldExpireEvent now ev \<longleftrightarrow>
     (if status ev \<noteq> Active then False else now > endDate ev \<or> hasReachedLimit ev)"

definition shouldCleanGallery :: "timestamp \<Rightarrow> Event \<Rightarrow> bool" where
  "shouldCleanGallery now ev \<longleftrightarrow>
     (if status ev \<noteq> Expired then False
      else case galleryExpiresAt ev of None \<Rightarrow> False | Some g \<Rightarrow> now > g)"


subsection \<open>The callable functions of \<open>reserveCapture.ts\<close>\<close>

text \<open>
  A callable either throws an \<open>HttpsError\<close> (code and message) or returns a response.  The
  documents are a map from the event id.  The body runs inside \<open>db.runTransaction\<close>: when
  the transaction fails (\<open>txFails\<close>) nothing is written and the error is wrapped as
  \<open>internal\<close>.  \<open>galleryExpiresAt.setDate(getDate() + 15)\<close> moves the clock reading
  fifteen calendar days ahead, taken here as fifteen days of 24 hours.
\<close>

datatype HttpsError = HttpsError string string

type_synonym firestore = "string \<Rightarrow> Event option"

definition reserveCapture ::
  "timestamp \<Rightarrow> int \<Rightarrow> bool \<Rightarrow> string \<Rightarrow> firestore
     \<Rightarrow> (HttpsError + ReserveCaptureResponse) \<times> firestore" where
  "reserveCapture now currentHour txFails eventId db =
    (if eventId = [] then
       (Inl (HttpsError ''invalid-argument'' ''Event ID is required''), db)
     else if txFails then
       (Inl (HttpsError ''internal'' ''Failed to reserve capture slot''), db)
     else
      (case db eventId of
         None \<Rightarrow> (Inl (HttpsError ''not-found'' ''Event not found''), db)
       | Some ev \<Rightarrow>
          (let validation = validateCapture now (Some ev) in
           if \<not> canCapture validation then
             (Inr \<lparr>success = False, captureNumber = None,
                   message = reason validation, event = eventInfo validation\<rparr>, db)
           else
            (let newCaptureCount = captureCount ev + 1;
                 a0 = (case analytics ev of
                         Some a \<Rightarrow> a
                       | None \<Rightarrow> \<lparr>totalCaptures = 0, peakHour = Some currentHour,
                                   lastCaptureAt = Some now\<rparr>);
                 a1 = a0\<lparr>totalCaptures := totalCaptures a0 + 1,
                         lastCaptureAt := Some now, peakHour := Some currentHour\<rparr>;
                 updatedEvent = ev\<lparr>captureCount := newCaptureCount, analytics := Some a1,
                                    updatedAt := now\<rparr>;
                 expire = shouldExpireEvent now updatedEvent;
                 written = (if expire
                            then updatedEvent\<lparr>status := Expired,
                                   galleryExpiresAt := Some (now + fifteen_days)\<rparr>
                            else updatedEvent)
             in (Inr \<lparr>success = True, captureNumber = Some newCaptureCount,
                      message = None,
                      event = Some (EventInfo newCaptureCount (photoLimit ev)
                                 (if expire then Expired else status ev))\<rparr>,
                 db(eventId \<mapsto> written))))))"

definition reserveCaptureWithBuffer ::
  "timestamp \<Rightarrow> bool \<Rightarrow> string \<Rightarrow> firestore
     \<Rightarrow> (HttpsError + ReserveCaptureResponse) \<times> firestore" where
  "reserveCaptureWithBuffer now txFails eventId db =
    (if eventId = [] then
       (Inl (HttpsError ''invalid-argument'' ''Event ID is required''), db)
     else if txFails then
       (Inl (HttpsError ''internal'' ''Failed to reserve capture slot''), db)
     else
      (case db eventId of
         None \<Rightarrow> (Inl (HttpsError ''not-found'' ''Event not found''), db)
       | Some ev \<Rightarrow>
          (let validation = validateCapture now (Some ev) in
           if \<not> canCapture validation then
             (Inr \<lparr>success = False, captureNumber = None,
                   message = reason validation, event = eventInfo validation\<rparr>, db)
           else
            (let newReservedCount = reserved_or_zero ev + 1
             in (Inr \<lparr>success = True,
                      captureNumber = Some (captureCount ev + newReservedCount),
                      message = None,
                      event = Some (EventInfo (captureCount ev) (photoLimit ev) (status ev))\<rparr>,
                 db(eventId \<mapsto> ev\<lparr>reservedCount := Some newReservedCount,
                                    updatedAt := now\<rparr>))))))"

definition confirmCapture ::
  "timestamp \<Rightarrow> int \<Rightarrow> bool \<Rightarrow> string \<Rightarrow> firestore
     \<Rightarrow> (HttpsError + ReserveCaptureResponse) \<times> firestore" where
  "confirmCapture now currentHour txFails eventId db =
    (if eventId = [] then
       (Inl (HttpsError ''invalid-argument'' ''Event ID is required''), db)
     else if txFails then
       (Inl (HttpsError ''internal'' ''Failed to confirm capture''), db)
     else
      (case db eventId of
         None \<Rightarrow> (Inl (HttpsError ''not-found'' ''Event not found''), db)
       | Some ev \<Rightarrow>
          (let newCaptureCount = captureCount ev + 1;
               newReservedCount = max 0 (reserved_or_zero ev - 1);
               a0 = (case analytics ev of
                       Some a \<Rightarrow> a
                     | None \<Rightarrow> \<lparr>totalCaptures = 0, peakHour = Some currentHour,
                                 lastCaptureAt = Some now\<rparr>);
               a1 = a0\<lparr>totalCaptures := totalCaptures a0 + 1,
                       lastCaptureAt := Some now, peakHour := Some currentHour\<rparr>;
               updatedEvent = ev\<lparr>captureCount := newCaptureCount,
                                  reservedCount := Some newReservedCount,
                                  analytics := Some a1, updatedAt := now\<rparr>;
               expire = shouldExpireEvent now updatedEvent;
               written = (if expire
                          then updatedEvent\<lparr>status := Expired,
                                 galleryExpiresAt := Some (now + fifteen_days)\<rparr>
                          else updatedEvent)
           in (Inr \<lparr>success = True, captureNumber = Some newCaptureCount,
                    message = None,
                    event = Some (EventInfo newCaptureCount (photoLimit ev)
                               (if expire then Expired else status ev))\<rparr>,
               db(eventId \<mapsto> written)))))"



section \<open>Cleanup, Supabase edge function \<open>auto-cleanup\<close>\<close>

text \<open>
  The state of the Supabase back end: the tables \<open>events\<close>, \<open>captures\<close> and
  \<open>cleanup_logs\<close> and the storage buckets \<open>photos\<close> and \<open>zips\<close>.  An object of the bucket
  \<open>photos\<close> is addressed by its folder (the event id) and its file name; the archive of an
  event is the object \<open>album.zip\<close> in the folder of the event in the bucket \<open>zips\<close>, so
  that bucket is keyed by the event id.
\<close>

record capture_row =
  event_id :: string
  capture_number :: int
  storage_path :: "(string \<times> string) option"
  uploaded_to_cloud :: bool

record archive =
  created_at :: timestamp
  entries :: "int list"

record cleanup_summary =
  events_processed :: nat
  events_cleaned_success :: nat
  events_cleaned_failed :: nat
  total_photos_deleted :: nat
  total_zips_deleted :: nat

record supabase =
  events :: "event_row list"
  captures :: "capture_row list"
  photos :: "(string \<times> string) list"
  zips :: "(string \<times> archive) list"
  cleanup_logs :: "cleanup_summary list"

text \<open>
  The errors that the handler reads off the storage and database client, for the event with
  a given id.  A call that reports an error is taken to have changed nothing.  The result of
  the status update is not inspected by the handler; that update is taken to succeed.
  \<open>list\<close> is taken to return every object of the folder.  An exception raised inside the
  loop, which the handler would record in \<open>cleanup_errors\<close>, is not part of the model, so
  \<open>events_cleaned_failed\<close> stays at zero.
\<close>

record cleanup_faults =
  deleteError :: "string \<Rightarrow> bool"
  zipDeleteError :: "string \<Rightarrow> bool"
  capturesDeleteError :: "string \<Rightarrow> bool"

datatype cleanup_response = CleanupDone cleanup_summary | CleanupFailed

text \<open>The query \<open>.eq('status', 'expired').lt('gallery_expires_at', now)\<close>.\<close>

definition expired_before :: "timestamp \<Rightarrow> event_row \<Rightarrow> bool" where
  "expired_before now r \<longleftrightarrow>
     row_status r = Expired \<and> (case gallery_expires_at r of None \<Rightarrow> False | Some g \<Rightarrow> g < now)"

text \<open>One iteration of the loop over the events found.\<close>

definition clean_event ::
  "cleanup_faults \<Rightarrow> event_row \<Rightarrow> supabase \<times> cleanup_summary \<Rightarrow> supabase \<times> cleanup_summary" where
  "clean_event F ev acc =
    (let st = fst acc; sm = snd acc; i = row_id ev;
         files = map snd (filter (\<lambda>p. fst p = i) (photos st));
         filePaths = map (\<lambda>n. (i, n)) files;
         removed = (files \<noteq> [] \<and> \<not> deleteError F i);
         st1 = (if removed
                then st\<lparr>photos := filter (\<lambda>p. p \<notin> set filePaths) (photos st)\<rparr> else st);
         sm1 = (if removed
                then sm\<lparr>total_photos_deleted := total_photos_deleted sm + length files\<rparr>
                else sm);
         st2 = (if zipDeleteError F i then st1
                else st1\<lparr>zips := filter (\<lambda>z. fst z \<noteq> i) (zips st1)\<rparr>);
         sm2 = (if zipDeleteError F i then sm1
                else sm1\<lparr>total_zips_deleted := total_zips_deleted sm1 + 1\<rparr>);
         st3 = (if capturesDeleteError F i then st2
                else st2\<lparr>captures := filter (\<lambda>c. event_id c \<noteq> i) (captures st2)\<rparr>);
         st4 = st3\<lparr>events := update_rows (\<lambda>r. row_id r = i)
                                 (\<lambda>r. r\<lparr>row_status := Cleaned\<rparr>) (events st3)\<rparr>
     in (st4, sm2\<lparr>events_processed := events_processed sm2 + 1,
                  events_cleaned_success := events_cleaned_success sm2 + 1\<rparr>))"

definition no_cleanup :: cleanup_summary where
  "no_cleanup = \<lparr>events_processed = 0, events_cleaned_success = 0, events_cleaned_failed = 0,
                 total_photos_deleted = 0, total_zips_deleted = 0\<rparr>"

definition auto_cleanup ::
  "timestamp \<Rightarrow> bool \<Rightarrow> cleanup_faults \<Rightarrow> supabase \<Rightarrow> (nat \<times> cleanup_response) \<times> supabase" where
  "auto_cleanup now fetchError F st =
    (if fetchError then ((500, CleanupFailed), st)
     else
      (let expiredEvents = filter (expired_before now) (events st);
           done = fold (clean_event F) expiredEvents (st, no_cleanup);
           summary = snd done
       in ((200, CleanupDone summary),
           (fst done)\<lparr>cleanup_logs := cleanup_logs (fst done) @ [summary]\<rparr>)))"


section \<open>Album archive, Supabase edge function \<open>generate-album-zip\<close>\<close>

text \<open>
  A signed URL names the object it gives access to and the instant its signature lapses.
  The message of a freshly built archive carries the number of photos; the other messages
  are fixed texts.
\<close>

datatype signed_url = SignedUrl string timestamp

datatype zip_message = Text string | ZipCreatedWith nat

record GenerateZipResponse =
  zip_success :: bool
  downloadUrl :: "signed_url option"
  expiresAt :: "timestamp option"
  zip_message :: zip_message

definition zip_failure :: "string \<Rightarrow> GenerateZipResponse" where
  "zip_failure m = \<lparr>zip_success = False, downloadUrl = None, expiresAt = None,
                     zip_message = Text m\<rparr>"

text \<open>
  \<open>createSignedUrl\<close> signs a URL for an object that exists and yields no URL otherwise;
  \<open>upload\<close> with \<open>upsert\<close> replaces the object.  The errors the handler inspects
  (\<open>eventError\<close>, \<open>capturesError\<close>, \<open>uploadError\<close>) are arguments; a photo whose download
  fails is one that is not in the bucket.  The argument \<open>givenToken\<close> is the
  \<open>galleryToken\<close> of the request.
\<close>

definition generate_album_zip ::
  "timestamp \<Rightarrow> bool \<Rightarrow> bool \<Rightarrow> bool \<Rightarrow> string \<Rightarrow> string \<Rightarrow> supabase
     \<Rightarrow> (nat \<times> GenerateZipResponse) \<times> supabase" where
  "generate_album_zip now eventError capturesError uploadError eventId givenToken st =
    (if eventId = [] \<or> givenToken = [] then
       ((400, zip_failure ''Event ID and gallery token are required''), st)
     else
      (case (if eventError then None else select_single (events st) eventId) of
         None \<Rightarrow> ((404, zip_failure ''Event not found''), st)
       | Some ev \<Rightarrow>
          if gallery_token ev \<noteq> givenToken then
            ((403, zip_failure ''Invalid gallery token''), st)
          else if \<not> has_cloud_album ev then
            ((400, zip_failure ''This event does not have cloud album feature''), st)
          else if row_status ev = Cleaned then
            ((400, zip_failure ''Gallery has been cleaned up''), st)
          else if (case gallery_expires_at ev of None \<Rightarrow> False | Some g \<Rightarrow> now > g) then
            ((400, zip_failure ''Gallery has expired''), st)
          else
           (case map_of (zips st) eventId of
              Some existingZip \<Rightarrow>
                ((200, \<lparr>zip_success = True,
                        downloadUrl = Some (SignedUrl eventId (now + 86400 * 1000)),
                        expiresAt = Some (now + 86400000),
                        zip_message = Text ''Using cached ZIP''\<rparr>), st)
            | None \<Rightarrow>
               (let found = sort_key capture_number
                              (filter (\<lambda>c. event_id c = eventId \<and> uploaded_to_cloud c)
                                 (captures st))
                in if capturesError \<or> found = [] then
                     ((404, zip_failure ''No photos found in cloud album''), st)
                   else
                    (let added = filter (\<lambda>c. case storage_path c of
                                                None \<Rightarrow> False
                                              | Some p \<Rightarrow> p \<in> set (photos st)) found;
                         photoCount = length added
                     in if photoCount = 0 then
                          ((404, zip_failure ''No accessible photos found''), st)
                        else if uploadError then
                          ((500, zip_failure ''Failed to create ZIP archive''), st)
                        else
                          ((200, \<lparr>zip_success = True,
                                  downloadUrl = Some (SignedUrl eventId (now + 86400 * 1000)),
                                  expiresAt = Some (now + 86400000),
                                  zip_message = ZipCreatedWith photoCount\<rparr>),
                           st\<lparr>zips := (eventId, \<lparr>created_at = now,
                                                  entries = map capture_number added\<rparr>)
                                       # filter (\<lambda>z. fst z \<noteq> eventId) (zips st)\<rparr>))))))"


section \<open>Album archive, Firebase cloud function \<open>generateAlbumZip\<close>\<close>

text \<open>
  The Firebase back end: the event documents, the \<open>captures\<close> subcollection of each event,
  the photo objects of the bucket (by storage path) and, per event, the object
  \<open>zips/<eventId>/album.zip\<close> with the \<open>timeCreated\<close> of its metadata.
\<close>

record Capture =
  captureNumberOf :: int
  storagePath :: "string option"
  uploadedToCloud :: bool

record zip_file =
  timeCreated :: "timestamp option"
  contents :: "int list"

record firebase =
  docs :: firestore
  subcaptures :: "string \<Rightarrow> Capture list"
  photo_files :: "string list"
  zip_files :: "string \<Rightarrow> zip_file option"

text \<open>
  The age test of the source is \<open>(now - createdAt) / (1000 * 60 * 60) < 24\<close>; on
  millisecond counts that is \<open>now - createdAt < 24 * (1000 * 60 * 60)\<close>.  An archive
  without \<open>timeCreated\<close> counts as created now.  The storage calls are taken to succeed,
  and an archive that is abandoned before it is finalised (no accessible photo) leaves no
  object behind.
\<close>

definition generateAlbumZip ::
  "timestamp \<Rightarrow> string \<Rightarrow> string \<Rightarrow> firebase
     \<Rightarrow> (HttpsError + GenerateZipResponse) \<times> firebase" where
  "generateAlbumZip now eventId givenToken st =
    (if eventId = [] \<or> givenToken = [] then
       (Inl (HttpsError ''invalid-argument'' ''Event ID and gallery token are required''), st)
     else
      (case docs st eventId of
         None \<Rightarrow> (Inl (HttpsError ''not-found'' ''Event not found''), st)
       | Some ev \<Rightarrow>
          if galleryToken ev \<noteq> givenToken then
            (Inl (HttpsError ''permission-denied'' ''Invalid gallery token''), st)
          else if \<not> hasCloudAlbum ev then
            (Inl (HttpsError ''failed-precondition''
                    ''This event does not have cloud album feature''), st)
          else if status ev = Cleaned then
            (Inl (HttpsError ''failed-precondition'' ''Gallery has been cleaned up''), st)
          else if now > (case galleryExpiresAt ev of Some g \<Rightarrow> g | None \<Rightarrow> now) then
            (Inl (HttpsError ''failed-precondition'' ''Gallery has expired''), st)
          else if (case zip_files st eventId of
                     None \<Rightarrow> False
                   | Some z \<Rightarrow>
                       now - (case timeCreated z of Some t \<Rightarrow> t | None \<Rightarrow> now)
                         < 24 * (1000 * 60 * 60)) then
            (Inr \<lparr>zip_success = True,
                  downloadUrl = Some (SignedUrl eventId (now + 24 * 60 * 60 * 1000)),
                  expiresAt = Some (now + 24 * 60 * 60 * 1000),
                  zip_message = Text ''Using cached ZIP''\<rparr>, st)
          else
           (let found = sort_key captureNumberOf
                          (filter uploadedToCloud (subcaptures st eventId))
            in if found = [] then
                 (Inl (HttpsError ''not-found'' ''No photos found in cloud album''), st)
               else
                (let added = filter (\<lambda>c. case storagePath c of
                                            None \<Rightarrow> False
                                          | Some p \<Rightarrow> p \<in> set (photo_files st)) found;
                     photoCount = length added
                 in if photoCount = 0 then
                      (Inl (HttpsError ''not-found'' ''No accessible photos found''), st)
                    else
                      (Inr \<lparr>zip_success = True,
                            downloadUrl = Some (SignedUrl eventId (now + 24 * 60 * 60 * 1000)),
                            expiresAt = Some (now + 24 * 60 * 60 * 1000),
                            zip_message = ZipCreatedWith photoCount\<rparr>,
                       st\<lparr>zip_files := (zip_files st)
                             (eventId \<mapsto> \<lparr>timeCreated = Some now,
                                           contents = map captureNumberOf added\<rparr>)\<rparr>)))))"



section \<open>The invariant of the slot accounting\<close>

text \<open>
  The data model asks that the captures taken and the slots reserved never exceed the
  photo limit.  On a document a missing \<open>reservedCount\<close> counts as zero, as in
  \<open>hasAvailableSlots\<close>.
\<close>

definition within_limit :: "Event \<Rightarrow> bool" where
  "within_limit ev \<longleftrightarrow> captureCount ev + reserved_or_zero ev \<le> photoLimit ev"

definition row_within_limit :: "event_row \<Rightarrow> bool" where
  "row_within_limit r \<longleftrightarrow> capture_count r + reserved_count r \<le> photo_limit r"


section \<open>Example data\<close>

text \<open>
  The event of the specification's example: a limit of ten photos, nine of them taken, open
  from instant 0 to instant 10000.  It is given once as a row and once as a document.
\<close>

definition party_row :: event_row where
  "party_row = \<lparr>row_id = ''party'', row_name = ''Party'', photo_limit = 10,
     has_cloud_album = True, start_date = 0, end_date = 10000, row_status = Active,
     capture_count = 9, reserved_count = 0, gallery_token = ''tok'',
     gallery_expires_at = None, row_analytics = None\<rparr>"

definition party_event :: Event where
  "party_event = \<lparr>photoLimit = 10, hasCloudAlbum = True, startDate = 0, endDate = 10000,
     status = Active, captureCount = 9, reservedCount = Some 0, galleryToken = ''tok'',
     galleryExpiresAt = None, analytics = None, updatedAt = 0\<rparr>"



text \<open>
  The same event after the cleanup: all ten photos taken, no slot reserved, status cleaned.
\<close>

definition spent_event :: Event where
  "spent_event = party_event\<lparr>status := Cleaned, captureCount := 10\<rparr>"


text \<open>An event with five photos taken and two slots reserved.\<close>

definition held_event :: Event where
  "held_event = party_event\<lparr>captureCount := 5, reservedCount := Some 2\<rparr>"


text \<open>The row and the document of an event whose ten photos are all taken.\<close>

definition full_row :: event_row where
  "full_row = party_row\<lparr>capture_count := 10\<rparr>"

definition full_event :: Event where
  "full_event = party_event\<lparr>captureCount := 10\<rparr>"


text \<open>
  A back end with three events at instant 5000: one expired whose gallery lapsed at instant
  100, one expired whose gallery lasts until instant 9000, and one already cleaned.  The
  first two still own a capture, a photo and an archive.
\<close>

definition due_row :: event_row where
  "due_row = party_row\<lparr>row_id := ''old'', row_status := Expired,
                         gallery_expires_at := Some 100\<rparr>"

definition waiting_row :: event_row where
  "waiting_row = party_row\<lparr>row_id := ''recent'', row_status := Expired,
                             gallery_expires_at := Some 9000\<rparr>"

definition archived_row :: event_row where
  "archived_row = party_row\<lparr>row_id := ''gone'', row_status := Cleaned,
                              gallery_expires_at := Some 50\<rparr>"

definition cleanup_store :: supabase where
  "cleanup_store = \<lparr>events = [due_row, waiting_row, archived_row],
     captures = [\<lparr>event_id = ''old'', capture_number = 1,
                   storage_path = Some (''old'', ''photo_1.jpg''), uploaded_to_cloud = True\<rparr>,
                 \<lparr>event_id = ''recent'', capture_number = 1,
                   storage_path = Some (''recent'', ''photo_1.jpg''),
                   uploaded_to_cloud = True\<rparr>],
     photos = [(''old'', ''photo_1.jpg''), (''recent'', ''photo_1.jpg'')],
     zips = [(''old'', \<lparr>created_at = 60, entries = [1]\<rparr>),
             (''recent'', \<lparr>created_at = 4000, entries = [1]\<rparr>)],
     cleanup_logs = []\<rparr>"

definition no_faults :: cleanup_faults where
  "no_faults = \<lparr>deleteError = (\<lambda>i. False), zipDeleteError = (\<lambda>i. False),
                 capturesDeleteError = (\<lambda>i. False)\<rparr>"


text \<open>The example event while it is still a draft.\<close>

definition draft_event :: Event where
  "draft_event = party_event\<lparr>status := Draft\<rparr>"

text \<open>
  The example event with one uploaded photo and an archive built at instant 0, once on each
  back end.  Three days are 259200000 milliseconds.
\<close>

definition stale_album :: supabase where
  "stale_album = \<lparr>events = [party_row],
     captures = [\<lparr>event_id = ''party'', capture_number = 1,
                   storage_path = Some (''party'', ''photo_1.jpg''),
                   uploaded_to_cloud = True\<rparr>],
     photos = [(''party'', ''photo_1.jpg'')],
     zips = [(''party'', \<lparr>created_at = 0, entries = [1]\<rparr>)],
     cleanup_logs = []\<rparr>"

definition stale_bucket :: firebase where
  "stale_bucket = \<lparr>docs = [''party'' \<mapsto> party_event],
     subcaptures = (\<lambda>i. if i = ''party''
                         then [\<lparr>captureNumberOf = 1,
                                 storagePath = Some ''events/party/photo_1.jpg'',
                                 uploadedToCloud = True\<rparr>]
                         else []),
     photo_files = [''events/party/photo_1.jpg''],
     zip_files = [''party'' \<mapsto> \<lparr>timeCreated = Some 0, contents = [1]\<rparr>]\<rparr>"


section \<open>Properties of the reservation\<close>

subsection \<open>Rows selected by id\<close>

lemma select_single_Some_iff:
  "select_single tbl i = Some ev \<longleftrightarrow> filter (\<lambda>r. row_id r = i) tbl = [ev]"
  by (auto simp: select_single_def split: list.splits)

lemma select_single_row_id:
  assumes "select_single tbl i = Some ev"
  shows "row_id ev = i" and "ev \<in> set tbl"
proof -
  have "ev \<in> set (filter (\<lambda>r. row_id r = i) tbl)"
    using assms by (simp add: select_single_Some_iff)
  then show "row_id ev = i" and "ev \<in> set tbl" by simp_all
qed

lemma filter_id_update_rows:
  assumes "filter (\<lambda>r. row_id r = i) tbl = [ev]"
    and "\<And>r. row_id (f r) = row_id r"
  shows "filter (\<lambda>r. row_id r = i) (update_rows P f tbl) = [if P ev then f ev else ev]"
proof -
  let ?g = "\<lambda>r. if P r then f r else r"
  have "filter (\<lambda>r. row_id r = i) (map ?g tbl) = map ?g (filter ((\<lambda>r. row_id r = i) \<circ> ?g) tbl)"
    by (simp add: filter_map)
  also have "(\<lambda>r. row_id r = i) \<circ> ?g = (\<lambda>r. row_id r = i)"
    using assms(2) by (auto simp: fun_eq_iff)
  finally show ?thesis using assms(1) by (simp add: update_rows_def)
qed

lemma select_single_update_rows:
  assumes "select_single tbl i = Some ev" and "\<And>r. row_id (f r) = row_id r"
  shows "select_single (update_rows P f tbl) i = Some (if P ev then f ev else ev)"
  using filter_id_update_rows[OF _ assms(2), of i tbl ev P] assms(1)
  by (simp add: select_single_Some_iff)

subsection \<open>The success path\<close>

lemma reserve_capture_success:
  assumes "eventId \<noteq> []" "\<not> fetchError" "\<not> updateError"
    and "select_single tbl eventId = Some ev"
    and "row_status ev = Active" "start_date ev \<le> now" "now \<le> end_date ev"
    and "capture_count ev < photo_limit ev"
  shows "\<exists>resp ev'.
      fst (reserve_capture now currentHour fetchError updateError eventId tbl) = (200, resp)
    \<and> select_single (snd (reserve_capture now currentHour fetchError updateError eventId tbl))
          eventId = Some ev'
    \<and> success resp
    \<and> captureNumber resp = Some (capture_count ev + 1)
    \<and> capture_count ev' = capture_count ev + 1
    \<and> (capture_count ev + 1 = photo_limit ev \<longrightarrow>
          row_status ev' = Expired \<and> gallery_expires_at ev' = Some (now + fifteen_days))
    \<and> (capture_count ev + 1 \<noteq> photo_limit ev \<longrightarrow>
          row_status ev' = Active \<and> gallery_expires_at ev' = gallery_expires_at ev)
    \<and> event resp = Some (EventInfo (capture_count ev + 1) (photo_limit ev) (row_status ev'))"
  using assms
  by (auto simp: reserve_capture_def reserve_capture_on_def Let_def select_single_update_rows select_single_row_id)

lemma canCapture_iff:
  "canCapture (validateCapture now (Some ev)) \<longleftrightarrow>
     status ev = Active \<and> startDate ev \<le> now \<and> now \<le> endDate ev
     \<and> captureCount ev < photoLimit ev
     \<and> captureCount ev + reserved_or_zero ev < photoLimit ev"
  by (cases "status ev")
     (auto simp: validateCapture_def isEventActive_def hasReachedLimit_def
        hasAvailableSlots_def Let_def)

lemma reserveCapture_success:
  assumes "eventId \<noteq> []" "\<not> txFails" "db eventId = Some ev"
    and "canCapture (validateCapture now (Some ev))"
  shows "\<exists>resp ev'.
      fst (reserveCapture now currentHour txFails eventId db) = Inr resp
    \<and> snd (reserveCapture now currentHour txFails eventId db) eventId = Some ev'
    \<and> success resp
    \<and> captureNumber resp = Some (captureCount ev + 1)
    \<and> captureCount ev' = captureCount ev + 1
    \<and> (captureCount ev + 1 = photoLimit ev \<longrightarrow>
          status ev' = Expired \<and> galleryExpiresAt ev' = Some (now + fifteen_days))
    \<and> (captureCount ev + 1 \<noteq> photoLimit ev \<longrightarrow>
          status ev' = Active \<and> galleryExpiresAt ev' = galleryExpiresAt ev)
    \<and> event resp = Some (EventInfo (captureCount ev + 1) (photoLimit ev) (status ev'))"
proof -
  from assms(4) have c: "status ev = Active" "startDate ev \<le> now" "now \<le> endDate ev"
    "captureCount ev < photoLimit ev"
    by (simp_all add: canCapture_iff)
  show ?thesis
    using assms c
    by (auto simp: reserveCapture_def Let_def shouldExpireEvent_def hasReachedLimit_def)
qed

subsection \<open>C1: a successful reservation\<close>

text \<open>
  C1.  For an event that passes every precondition of the reservation, with no failure of
  the database layer, the reservation succeeds: the stored capture count grows by exactly
  one, the returned capture number is the new capture count, and when the new capture count
  equals the photo limit the same write sets the status to expired and the gallery expiry
  to \<open>now\<close> plus fifteen days; the response reports the status that was written.  The
  first conjunct is the Supabase handler, the second the Firebase callable, for which
  passing the preconditions is \<open>canCapture\<close> of \<open>validateCapture\<close>.
\<close>

theorem C1_successful_reservation:
  "(eventId \<noteq> [] \<and> \<not> fetchError \<and> \<not> updateError
      \<and> select_single tbl eventId = Some row
      \<and> row_status row = Active \<and> start_date row \<le> now \<and> now \<le> end_date row
      \<and> capture_count row < photo_limit row
    \<longrightarrow> (\<exists>resp row'.
          fst (reserve_capture now currentHour fetchError updateError eventId tbl)
            = (200, resp)
        \<and> select_single
            (snd (reserve_capture now currentHour fetchError updateError eventId tbl))
            eventId = Some row'
        \<and> success resp
        \<and> captureNumber resp = Some (capture_count row + 1)
        \<and> capture_count row' = capture_count row + 1
        \<and> (capture_count row + 1 = photo_limit row \<longrightarrow>
              row_status row' = Expired \<and> gallery_expires_at row' = Some (now + fifteen_days))
        \<and> event resp
            = Some (EventInfo (capture_count row + 1) (photo_limit row) (row_status row'))))
  \<and> (eventId \<noteq> [] \<and> \<not> txFails \<and> db eventId = Some ev
      \<and> canCapture (validateCapture now (Some ev))
    \<longrightarrow> (\<exists>resp ev'.
          fst (reserveCapture now currentHour txFails eventId db) = Inr resp
        \<and> snd (reserveCapture now currentHour txFails eventId db) eventId = Some ev'
        \<and> success resp
        \<and> captureNumber resp = Some (captureCount ev + 1)
        \<and> captureCount ev' = captureCount ev + 1
        \<and> (captureCount ev + 1 = photoLimit ev \<longrightarrow>
              status ev' = Expired \<and> galleryExpiresAt ev' = Some (now + fifteen_days))
        \<and> event resp
            = Some (EventInfo (captureCount ev + 1) (photoLimit ev) (status ev'))))"
proof (intro conjI impI)
  assume "eventId \<noteq> [] \<and> \<not> fetchError \<and> \<not> updateError
      \<and> select_single tbl eventId = Some row
      \<and> row_status row = Active \<and> start_date row \<le> now \<and> now \<le> end_date row
      \<and> capture_count row < photo_limit row"
  then obtain resp row' where
    "fst (reserve_capture now currentHour fetchError updateError eventId tbl) = (200, resp)"
    "select_single (snd (reserve_capture now currentHour fetchError updateError eventId tbl))
       eventId = Some row'"
    "success resp" "captureNumber resp = Some (capture_count row + 1)"
    "capture_count row' = capture_count row + 1"
    "capture_count row + 1 = photo_limit row \<longrightarrow>
       row_status row' = Expired \<and> gallery_expires_at row' = Some (now + fifteen_days)"
    "event resp = Some (EventInfo (capture_count row + 1) (photo_limit row) (row_status row'))"
    using reserve_capture_success[of eventId fetchError updateError tbl row now currentHour]
    by blast
  then show "\<exists>resp row'.
          fst (reserve_capture now currentHour fetchError updateError eventId tbl)
            = (200, resp)
        \<and> select_single
            (snd (reserve_capture now currentHour fetchError updateError eventId tbl))
            eventId = Some row'
        \<and> success resp
        \<and> captureNumber resp = Some (capture_count row + 1)
        \<and> capture_count row' = capture_count row + 1
        \<and> (capture_count row + 1 = photo_limit row \<longrightarrow>
              row_status row' = Expired \<and> gallery_expires_at row' = Some (now + fifteen_days))
        \<and> event resp
            = Some (EventInfo (capture_count row + 1) (photo_limit row) (row_status row'))"
    by blast
next
  assume "eventId \<noteq> [] \<and> \<not> txFails \<and> db eventId = Some ev
      \<and> canCapture (validateCapture now (Some ev))"
  then obtain resp ev' where
    "fst (reserveCapture now currentHour txFails eventId db) = Inr resp"
    "snd (reserveCapture now currentHour txFails eventId db) eventId = Some ev'"
    "success resp" "captureNumber resp = Some (captureCount ev + 1)"
    "captureCount ev' = captureCount ev + 1"
    "captureCount ev + 1 = photoLimit ev \<longrightarrow>
       status ev' = Expired \<and> galleryExpiresAt ev' = Some (now + fifteen_days)"
    "event resp = Some (EventInfo (captureCount ev + 1) (photoLimit ev) (status ev'))"
    using reserveCapture_success[of eventId txFails db ev now currentHour]
    by blast
  then show "\<exists>resp ev'.
          fst (reserveCapture now currentHour txFails eventId db) = Inr resp
        \<and> snd (reserveCapture now currentHour txFails eventId db) eventId = Some ev'
        \<and> success resp
        \<and> captureNumber resp = Some (captureCount ev + 1)
        \<and> captureCount ev' = captureCount ev + 1
        \<and> (captureCount ev + 1 = photoLimit ev \<longrightarrow>
              status ev' = Expired \<and> galleryExpiresAt ev' = Some (now + fifteen_days))
        \<and> event resp
            = Some (EventInfo (captureCount ev + 1) (photoLimit ev) (status ev'))"
    by blast
qed

theorem C1_successful_reservation_witness:
  "(''party'' \<noteq> [] \<and> select_single [party_row] ''party'' = Some party_row
      \<and> row_status party_row = Active \<and> start_date party_row \<le> 5000
      \<and> 5000 \<le> end_date party_row \<and> capture_count party_row < photo_limit party_row)
   \<and> (\<exists>resp row'.
          fst (reserve_capture 5000 14 False False ''party'' [party_row]) = (200, resp)
        \<and> select_single (snd (reserve_capture 5000 14 False False ''party'' [party_row]))
            ''party'' = Some row'
        \<and> success resp \<and> captureNumber resp = Some 10
        \<and> capture_count row' = 10 \<and> row_status row' = Expired
        \<and> gallery_expires_at row' = Some (5000 + fifteen_days)
        \<and> event resp = Some (EventInfo 10 10 Expired))
   \<and> canCapture (validateCapture 5000 (Some party_event))
   \<and> (\<exists>resp ev'.
          fst (reserveCapture 5000 14 False ''party'' [''party'' \<mapsto> party_event]) = Inr resp
        \<and> snd (reserveCapture 5000 14 False ''party'' [''party'' \<mapsto> party_event]) ''party''
            = Some ev'
        \<and> success resp \<and> captureNumber resp = Some 10
        \<and> captureCount ev' = 10 \<and> status ev' = Expired
        \<and> galleryExpiresAt ev' = Some (5000 + fifteen_days)
        \<and> event resp = Some (EventInfo 10 10 Expired))"
proof -
  have h1: "''party'' \<noteq> [] \<and> \<not> False \<and> \<not> False
      \<and> select_single [party_row] ''party'' = Some party_row
      \<and> row_status party_row = Active \<and> start_date party_row \<le> 5000
      \<and> 5000 \<le> end_date party_row \<and> capture_count party_row < photo_limit party_row"
    by (simp add: party_row_def select_single_def)
  have h2: "''party'' \<noteq> [] \<and> \<not> False
      \<and> [''party'' \<mapsto> party_event] ''party'' = Some party_event
      \<and> canCapture (validateCapture 5000 (Some party_event))"
    by (simp add: validateCapture_def isEventActive_def hasReachedLimit_def
          hasAvailableSlots_def reserved_or_zero_def party_event_def)
  note T = C1_successful_reservation[where eventId="''party''" and fetchError=False
      and updateError=False and tbl="[party_row]" and row=party_row and now=5000
      and currentHour=14 and txFails=False and db="[''party'' \<mapsto> party_event]"
      and ev=party_event]
  have c: "capture_count party_row = 9" "photo_limit party_row = 10"
    "captureCount party_event = 9" "photoLimit party_event = 10"
    by (simp_all add: party_row_def party_event_def)
  have a: "\<exists>resp row'.
          fst (reserve_capture 5000 14 False False ''party'' [party_row]) = (200, resp)
        \<and> select_single (snd (reserve_capture 5000 14 False False ''party'' [party_row]))
            ''party'' = Some row'
        \<and> success resp \<and> captureNumber resp = Some 10
        \<and> capture_count row' = 10 \<and> row_status row' = Expired
        \<and> gallery_expires_at row' = Some (5000 + fifteen_days)
        \<and> event resp = Some (EventInfo 10 10 Expired)"
    using T[THEN conjunct1, THEN mp, OF h1] unfolding c by auto
  have b: "\<exists>resp ev'.
          fst (reserveCapture 5000 14 False ''party'' [''party'' \<mapsto> party_event]) = Inr resp
        \<and> snd (reserveCapture 5000 14 False ''party'' [''party'' \<mapsto> party_event]) ''party''
            = Some ev'
        \<and> success resp \<and> captureNumber resp = Some 10
        \<and> captureCount ev' = 10 \<and> status ev' = Expired
        \<and> galleryExpiresAt ev' = Some (5000 + fifteen_days)
        \<and> event resp = Some (EventInfo 10 10 Expired)"
    using T[THEN conjunct2, THEN mp, OF h2] unfolding c by auto
  from h1 h2 a b show ?thesis by simp
qed


subsection \<open>Confirmation\<close>

lemma confirmCapture_existing:
  assumes "eventId \<noteq> []" "\<not> txFails" "db eventId = Some ev"
  shows "\<exists>resp ev'.
      fst (confirmCapture now currentHour txFails eventId db) = Inr resp
    \<and> snd (confirmCapture now currentHour txFails eventId db) eventId = Some ev'
    \<and> success resp
    \<and> captureNumber resp = Some (captureCount ev + 1)
    \<and> captureCount ev' = captureCount ev + 1
    \<and> reservedCount ev' = Some (max 0 (reserved_or_zero ev - 1))
    \<and> photoLimit ev' = photoLimit ev
    \<and> status ev' = (if shouldExpireEvent now (ev\<lparr>captureCount := captureCount ev + 1\<rparr>)
                     then Expired else status ev)
    \<and> galleryExpiresAt ev'
        = (if shouldExpireEvent now (ev\<lparr>captureCount := captureCount ev + 1\<rparr>)
           then Some (now + fifteen_days) else galleryExpiresAt ev)"
  using assms
  by (auto simp: confirmCapture_def Let_def shouldExpireEvent_def hasReachedLimit_def)

lemma confirmCapture_error_iff:
  "(\<exists>e. fst (confirmCapture now currentHour txFails eventId db) = Inl e)
     \<longleftrightarrow> eventId = [] \<or> txFails \<or> db eventId = None"
  by (auto simp: confirmCapture_def Let_def split: option.splits)

lemma confirmCapture_response_success:
  "fst (confirmCapture now currentHour txFails eventId db) = Inr resp \<Longrightarrow> success resp"
  by (auto simp: confirmCapture_def Let_def split: option.splits if_splits)

subsection \<open>C10: confirmation runs no validation\<close>

text \<open>
  C10.  For every existing event \<open>confirmCapture\<close> answers with success and raises the
  capture count by one, whatever the status, the date window and the relation of the capture
  count to the photo limit; the reserved count is lowered by one and clamped at zero.  The
  callable fails only when the event does not exist or the transaction fails (a request
  that names an event is one with a non-empty id), and every response it returns reports
  success.
\<close>

theorem C10_confirm_without_validation:
  "(eventId \<noteq> [] \<and> \<not> txFails \<and> db eventId = Some ev
    \<longrightarrow> (\<exists>resp ev'.
          fst (confirmCapture now currentHour txFails eventId db) = Inr resp
        \<and> snd (confirmCapture now currentHour txFails eventId db) eventId = Some ev'
        \<and> success resp
        \<and> captureNumber resp = Some (captureCount ev + 1)
        \<and> captureCount ev' = captureCount ev + 1
        \<and> reservedCount ev' = Some (max 0 (reserved_or_zero ev - 1))))
  \<and> (eventId \<noteq> [] \<longrightarrow>
       ((\<exists>e. fst (confirmCapture now currentHour txFails eventId db) = Inl e)
          \<longleftrightarrow> txFails \<or> db eventId = None))
  \<and> (\<forall>resp. fst (confirmCapture now currentHour txFails eventId db) = Inr resp
        \<longrightarrow> success resp)"
proof (intro conjI impI allI)
  assume "eventId \<noteq> [] \<and> \<not> txFails \<and> db eventId = Some ev"
  then show "\<exists>resp ev'.
          fst (confirmCapture now currentHour txFails eventId db) = Inr resp
        \<and> snd (confirmCapture now currentHour txFails eventId db) eventId = Some ev'
        \<and> success resp
        \<and> captureNumber resp = Some (captureCount ev + 1)
        \<and> captureCount ev' = captureCount ev + 1
        \<and> reservedCount ev' = Some (max 0 (reserved_or_zero ev - 1))"
    using confirmCapture_existing[of eventId txFails db ev now currentHour] by blast
next
  assume "eventId \<noteq> []"
  then show "(\<exists>e. fst (confirmCapture now currentHour txFails eventId db) = Inl e)
          \<longleftrightarrow> txFails \<or> db eventId = None"
    using confirmCapture_error_iff[of now currentHour txFails eventId db] by simp
next
  fix resp
  assume "fst (confirmCapture now currentHour txFails eventId db) = Inr resp"
  then show "success resp" by (rule confirmCapture_response_success)
qed

theorem C10_confirm_without_validation_witness:
  "(''party'' \<noteq> [] \<and> [''party'' \<mapsto> spent_event] ''party'' = Some spent_event
      \<and> status spent_event = Cleaned \<and> endDate spent_event < 20000
      \<and> captureCount spent_event = photoLimit spent_event
      \<and> reservedCount spent_event = Some 0)
   \<and> (\<exists>resp ev'.
          fst (confirmCapture 20000 14 False ''party'' [''party'' \<mapsto> spent_event]) = Inr resp
        \<and> snd (confirmCapture 20000 14 False ''party'' [''party'' \<mapsto> spent_event]) ''party''
            = Some ev'
        \<and> success resp \<and> captureNumber resp = Some 11
        \<and> captureCount ev' = 11 \<and> reservedCount ev' = Some 0)"
proof -
  have h: "''party'' \<noteq> [] \<and> \<not> False
      \<and> [''party'' \<mapsto> spent_event] ''party'' = Some spent_event"
    by simp
  have c: "captureCount spent_event = 10" "reserved_or_zero spent_event = 0"
    "status spent_event = Cleaned" "endDate spent_event < 20000"
    "captureCount spent_event = photoLimit spent_event"
    "reservedCount spent_event = Some 0"
    by (simp_all add: spent_event_def party_event_def reserved_or_zero_def)
  have "\<exists>resp ev'.
          fst (confirmCapture 20000 14 False ''party'' [''party'' \<mapsto> spent_event]) = Inr resp
        \<and> snd (confirmCapture 20000 14 False ''party'' [''party'' \<mapsto> spent_event]) ''party''
            = Some ev'
        \<and> success resp \<and> captureNumber resp = Some 11
        \<and> captureCount ev' = 11 \<and> reservedCount ev' = Some 0"
    using C10_confirm_without_validation[where eventId="''party''" and txFails=False
        and db="[''party'' \<mapsto> spent_event]" and ev=spent_event and now=20000
        and currentHour=14, THEN conjunct1, THEN mp, OF h]
    unfolding c(1,2) by auto
  with c show ?thesis by simp
qed


subsection \<open>The buffered reservation and the expiry check\<close>

lemma reserveCapture_expiry:
  assumes "eventId \<noteq> []" "\<not> txFails" "db eventId = Some ev"
    and "canCapture (validateCapture now (Some ev))"
  shows "\<exists>ev'.
      snd (reserveCapture now currentHour txFails eventId db) eventId = Some ev'
    \<and> status ev' = (if shouldExpireEvent now (ev\<lparr>captureCount := captureCount ev + 1\<rparr>)
                     then Expired else status ev)
    \<and> galleryExpiresAt ev'
        = (if shouldExpireEvent now (ev\<lparr>captureCount := captureCount ev + 1\<rparr>)
           then Some (now + fifteen_days) else galleryExpiresAt ev)"
  using assms
  by (auto simp: reserveCapture_def Let_def shouldExpireEvent_def hasReachedLimit_def)

lemma reserveCaptureWithBuffer_success:
  assumes "eventId \<noteq> []" "\<not> txFails" "db eventId = Some ev"
    and "canCapture (validateCapture now (Some ev))"
  shows "\<exists>resp ev'.
      fst (reserveCaptureWithBuffer now txFails eventId db) = Inr resp
    \<and> snd (reserveCaptureWithBuffer now txFails eventId db) eventId = Some ev'
    \<and> success resp
    \<and> reserved_or_zero ev' = reserved_or_zero ev + 1
    \<and> captureCount ev' = captureCount ev
    \<and> photoLimit ev' = photoLimit ev
    \<and> status ev' = status ev
    \<and> captureNumber resp = Some (captureCount ev' + reserved_or_zero ev')"
  using assms
  by (auto simp: reserveCaptureWithBuffer_def Let_def reserved_or_zero_def)

subsection \<open>C9: reserve with buffer, then confirm\<close>

text \<open>
  C9, as amended.  A successful reserve-with-buffer raises the reserved count by one, leaves
  the capture count alone and returns as provisional slot number the capture count plus the
  new reserved count.  Confirm raises the capture count by one and lowers the reserved
  count by one when it is positive; a reserved count of zero stays zero.  Confirm and the
  direct reservation decide the expiry with the same test, \<open>shouldExpireEvent\<close> on the
  event with its new capture count, and write the status expired and the gallery expiry
  \<open>now\<close> plus fifteen days when it holds.
\<close>

theorem C9_buffer_and_confirm:
  "(eventId \<noteq> [] \<and> \<not> txFails \<and> db eventId = Some ev
      \<and> canCapture (validateCapture now (Some ev))
    \<longrightarrow> (\<exists>resp ev'.
          fst (reserveCaptureWithBuffer now txFails eventId db) = Inr resp
        \<and> snd (reserveCaptureWithBuffer now txFails eventId db) eventId = Some ev'
        \<and> success resp
        \<and> reserved_or_zero ev' = reserved_or_zero ev + 1
        \<and> captureCount ev' = captureCount ev
        \<and> captureNumber resp = Some (captureCount ev' + reserved_or_zero ev')))
  \<and> (eventId \<noteq> [] \<and> \<not> txFails \<and> db eventId = Some ev
    \<longrightarrow> (\<exists>resp ev'.
          fst (confirmCapture now currentHour txFails eventId db) = Inr resp
        \<and> snd (confirmCapture now currentHour txFails eventId db) eventId = Some ev'
        \<and> captureCount ev' = captureCount ev + 1
        \<and> reserved_or_zero ev'
            = (if 0 < reserved_or_zero ev then reserved_or_zero ev - 1 else 0)
        \<and> status ev'
            = (if shouldExpireEvent now (ev\<lparr>captureCount := captureCount ev + 1\<rparr>)
               then Expired else status ev)
        \<and> galleryExpiresAt ev'
            = (if shouldExpireEvent now (ev\<lparr>captureCount := captureCount ev + 1\<rparr>)
               then Some (now + fifteen_days) else galleryExpiresAt ev)))
  \<and> (eventId \<noteq> [] \<and> \<not> txFails \<and> db eventId = Some ev
      \<and> canCapture (validateCapture now (Some ev))
    \<longrightarrow> (\<exists>ev'.
          snd (reserveCapture now currentHour txFails eventId db) eventId = Some ev'
        \<and> status ev'
            = (if shouldExpireEvent now (ev\<lparr>captureCount := captureCount ev + 1\<rparr>)
               then Expired else status ev)
        \<and> galleryExpiresAt ev'
            = (if shouldExpireEvent now (ev\<lparr>captureCount := captureCount ev + 1\<rparr>)
               then Some (now + fifteen_days) else galleryExpiresAt ev)))"
proof (intro conjI impI)
  assume "eventId \<noteq> [] \<and> \<not> txFails \<and> db eventId = Some ev
      \<and> canCapture (validateCapture now (Some ev))"
  then show "\<exists>resp ev'.
          fst (reserveCaptureWithBuffer now txFails eventId db) = Inr resp
        \<and> snd (reserveCaptureWithBuffer now txFails eventId db) eventId = Some ev'
        \<and> success resp
        \<and> reserved_or_zero ev' = reserved_or_zero ev + 1
        \<and> captureCount ev' = captureCount ev
        \<and> captureNumber resp = Some (captureCount ev' + reserved_or_zero ev')"
    using reserveCaptureWithBuffer_success[of eventId txFails db ev now] by blast
next
  assume "eventId \<noteq> [] \<and> \<not> txFails \<and> db eventId = Some ev"
  then obtain resp ev' where r:
    "fst (confirmCapture now currentHour txFails eventId db) = Inr resp"
    "snd (confirmCapture now currentHour txFails eventId db) eventId = Some ev'"
    "captureCount ev' = captureCount ev + 1"
    "reservedCount ev' = Some (max 0 (reserved_or_zero ev - 1))"
    "status ev' = (if shouldExpireEvent now (ev\<lparr>captureCount := captureCount ev + 1\<rparr>)
                    then Expired else status ev)"
    "galleryExpiresAt ev'
        = (if shouldExpireEvent now (ev\<lparr>captureCount := captureCount ev + 1\<rparr>)
           then Some (now + fifteen_days) else galleryExpiresAt ev)"
    using confirmCapture_existing[of eventId txFails db ev now currentHour] by blast
  from r(4) have "reserved_or_zero ev'
      = (if 0 < reserved_or_zero ev then reserved_or_zero ev - 1 else 0)"
    by (simp add: reserved_or_zero_def max_def)
  with r show "\<exists>resp ev'.
          fst (confirmCapture now currentHour txFails eventId db) = Inr resp
        \<and> snd (confirmCapture now currentHour txFails eventId db) eventId = Some ev'
        \<and> captureCount ev' = captureCount ev + 1
        \<and> reserved_or_zero ev'
            = (if 0 < reserved_or_zero ev then reserved_or_zero ev - 1 else 0)
        \<and> status ev'
            = (if shouldExpireEvent now (ev\<lparr>captureCount := captureCount ev + 1\<rparr>)
               then Expired else status ev)
        \<and> galleryExpiresAt ev'
            = (if shouldExpireEvent now (ev\<lparr>captureCount := captureCount ev + 1\<rparr>)
               then Some (now + fifteen_days) else galleryExpiresAt ev)"
    by blast
next
  assume "eventId \<noteq> [] \<and> \<not> txFails \<and> db eventId = Some ev
      \<and> canCapture (validateCapture now (Some ev))"
  then show "\<exists>ev'.
          snd (reserveCapture now currentHour txFails eventId db) eventId = Some ev'
        \<and> status ev'
            = (if shouldExpireEvent now (ev\<lparr>captureCount := captureCount ev + 1\<rparr>)
               then Expired else status ev)
        \<and> galleryExpiresAt ev'
            = (if shouldExpireEvent now (ev\<lparr>captureCount := captureCount ev + 1\<rparr>)
               then Some (now + fifteen_days) else galleryExpiresAt ev)"
    using reserveCapture_expiry[of eventId txFails db ev now currentHour] by blast
qed

text \<open>
  C9 as stated fails where no slot is reserved: confirm leaves the reserved count of the
  example event at zero instead of decrementing it.
\<close>

theorem C9_confirm_at_zero_counterexample:
  "reservedCount party_event = Some 0
   \<and> map_option reservedCount
       (snd (confirmCapture 5000 14 False ''party'' [''party'' \<mapsto> party_event]) ''party'')
     = Some (Some 0)"
  by (simp add: confirmCapture_def Let_def party_event_def reserved_or_zero_def)


theorem C9_buffer_and_confirm_witness:
  "(''party'' \<noteq> [] \<and> canCapture (validateCapture 5000 (Some party_event)))
   \<and> (\<exists>resp ev'.
          fst (reserveCaptureWithBuffer 5000 False ''party'' [''party'' \<mapsto> party_event])
            = Inr resp
        \<and> snd (reserveCaptureWithBuffer 5000 False ''party'' [''party'' \<mapsto> party_event])
            ''party'' = Some ev'
        \<and> success resp \<and> reserved_or_zero ev' = 1 \<and> captureCount ev' = 9
        \<and> captureNumber resp = Some 10)
   \<and> (\<exists>resp ev'.
          fst (confirmCapture 5000 14 False ''party'' [''party'' \<mapsto> held_event]) = Inr resp
        \<and> snd (confirmCapture 5000 14 False ''party'' [''party'' \<mapsto> held_event]) ''party''
            = Some ev'
        \<and> captureCount ev' = 6 \<and> reserved_or_zero ev' = 1
        \<and> status ev' = Active \<and> galleryExpiresAt ev' = None)
   \<and> (\<exists>ev'.
          snd (reserveCapture 5000 14 False ''party'' [''party'' \<mapsto> party_event]) ''party''
            = Some ev'
        \<and> status ev' = Expired \<and> galleryExpiresAt ev' = Some (5000 + fifteen_days))"
proof -
  have v: "canCapture (validateCapture 5000 (Some party_event))"
    by (simp add: validateCapture_def isEventActive_def hasReachedLimit_def
          hasAvailableSlots_def reserved_or_zero_def party_event_def)
  have h1: "''party'' \<noteq> [] \<and> \<not> False
      \<and> [''party'' \<mapsto> party_event] ''party'' = Some party_event
      \<and> canCapture (validateCapture 5000 (Some party_event))"
    using v by simp
  have h2: "''party'' \<noteq> [] \<and> \<not> False
      \<and> [''party'' \<mapsto> held_event] ''party'' = Some held_event"
    by simp
  have c: "captureCount party_event = 9" "reserved_or_zero party_event = 0"
    "captureCount held_event = 5" "reserved_or_zero held_event = 2"
    "status held_event = Active" "galleryExpiresAt held_event = None"
    "shouldExpireEvent 5000 (party_event\<lparr>captureCount := 9 + 1\<rparr>)"
    "\<not> shouldExpireEvent 5000 (held_event\<lparr>captureCount := 5 + 1\<rparr>)"
    by (simp_all add: party_event_def held_event_def reserved_or_zero_def
          shouldExpireEvent_def hasReachedLimit_def)
  note T1 = C9_buffer_and_confirm[where eventId="''party''" and txFails=False
      and db="[''party'' \<mapsto> party_event]" and ev=party_event and now=5000
      and currentHour=14]
  note T2 = C9_buffer_and_confirm[where eventId="''party''" and txFails=False
      and db="[''party'' \<mapsto> held_event]" and ev=held_event and now=5000
      and currentHour=14]
  have a: "\<exists>resp ev'.
          fst (reserveCaptureWithBuffer 5000 False ''party'' [''party'' \<mapsto> party_event])
            = Inr resp
        \<and> snd (reserveCaptureWithBuffer 5000 False ''party'' [''party'' \<mapsto> party_event])
            ''party'' = Some ev'
        \<and> success resp \<and> reserved_or_zero ev' = 1 \<and> captureCount ev' = 9
        \<and> captureNumber resp = Some 10"
    using T1[THEN conjunct1, THEN mp, OF h1] unfolding c(1,2) by auto
  have b: "\<exists>resp ev'.
          fst (confirmCapture 5000 14 False ''party'' [''party'' \<mapsto> held_event]) = Inr resp
        \<and> snd (confirmCapture 5000 14 False ''party'' [''party'' \<mapsto> held_event]) ''party''
            = Some ev'
        \<and> captureCount ev' = 6 \<and> reserved_or_zero ev' = 1
        \<and> status ev' = Active \<and> galleryExpiresAt ev' = None"
    using T2[THEN conjunct2, THEN conjunct1, THEN mp, OF h2] c(8)
    unfolding c(3,4,5,6) by auto
  have d: "\<exists>ev'.
          snd (reserveCapture 5000 14 False ''party'' [''party'' \<mapsto> party_event]) ''party''
            = Some ev'
        \<and> status ev' = Expired \<and> galleryExpiresAt ev' = Some (5000 + fifteen_days)"
    using T1[THEN conjunct2, THEN conjunct2, THEN mp, OF h1] c(7)
    unfolding c(1) by auto
  from v a b d show ?thesis by simp
qed

subsection \<open>Preservation of the invariant\<close>

lemma reserveCapture_within_limit:
  assumes "db eventId = Some ev" "within_limit ev"
  shows "\<exists>ev'. snd (reserveCapture now currentHour txFails eventId db) eventId = Some ev'
            \<and> within_limit ev'"
  using assms
  by (auto simp: reserveCapture_def Let_def within_limit_def canCapture_iff
        reserved_or_zero_def split: option.splits)

lemma reserveCaptureWithBuffer_within_limit:
  assumes "db eventId = Some ev" "within_limit ev"
  shows "\<exists>ev'. snd (reserveCaptureWithBuffer now txFails eventId db) eventId = Some ev'
            \<and> within_limit ev'"
  using assms
  by (auto simp: reserveCaptureWithBuffer_def Let_def within_limit_def canCapture_iff
        reserved_or_zero_def split: option.splits)

lemma confirmCapture_within_limit:
  assumes "db eventId = Some ev" "within_limit ev" "0 < reserved_or_zero ev"
  shows "\<exists>ev'. snd (confirmCapture now currentHour txFails eventId db) eventId = Some ev'
            \<and> within_limit ev'"
  using assms
  by (auto simp: confirmCapture_def Let_def within_limit_def reserved_or_zero_def
        split: option.splits)

lemma reserve_capture_within_limit:
  assumes "select_single tbl eventId = Some row" "reserved_count row = 0"
    "row_within_limit row"
  shows "\<exists>row'.
      select_single (snd (reserve_capture now currentHour fetchError updateError eventId tbl))
        eventId = Some row'
      \<and> reserved_count row' = 0 \<and> row_within_limit row'"
  using assms
  by (auto simp: reserve_capture_def reserve_capture_on_def Let_def row_within_limit_def
        select_single_update_rows select_single_row_id)


subsection \<open>C5: the invariant of the slot accounting\<close>

text \<open>
  C5, as amended.  Whatever the status of the event, the Firebase reservation and the
  Firebase reserve-with-buffer preserve \<open>capture_count + reserved_count \<le> photo_limit\<close>;
  confirm preserves it when at least one slot is reserved; the Supabase reservation, which
  neither reads nor writes \<open>reserved_count\<close>, preserves it for an event without reserved
  slots.
\<close>

theorem C5_limit_invariant:
  "(db eventId = Some ev \<and> within_limit ev
    \<longrightarrow> (\<exists>ev'. snd (reserveCapture now currentHour txFails eventId db) eventId = Some ev'
              \<and> within_limit ev')
      \<and> (\<exists>ev'. snd (reserveCaptureWithBuffer now txFails eventId db) eventId = Some ev'
              \<and> within_limit ev'))
  \<and> (db eventId = Some ev \<and> within_limit ev \<and> 0 < reserved_or_zero ev
    \<longrightarrow> (\<exists>ev'. snd (confirmCapture now currentHour txFails eventId db) eventId = Some ev'
              \<and> within_limit ev'))
  \<and> (select_single tbl eventId = Some row \<and> reserved_count row = 0 \<and> row_within_limit row
    \<longrightarrow> (\<exists>row'.
          select_single
            (snd (reserve_capture now currentHour fetchError updateError eventId tbl))
            eventId = Some row'
        \<and> reserved_count row' = 0 \<and> row_within_limit row'))"
  using reserveCapture_within_limit[of db eventId ev now currentHour txFails]
    reserveCaptureWithBuffer_within_limit[of db eventId ev now txFails]
    confirmCapture_within_limit[of db eventId ev now currentHour txFails]
    reserve_capture_within_limit[of tbl eventId row now currentHour fetchError updateError]
  by blast

theorem C5_limit_invariant_witness:
  "(within_limit held_event \<and> 0 < reserved_or_zero held_event
      \<and> select_single [party_row] ''party'' = Some party_row
      \<and> reserved_count party_row = 0 \<and> row_within_limit party_row)
   \<and> (\<exists>ev'. snd (reserveCapture 5000 14 False ''party'' [''party'' \<mapsto> held_event]) ''party''
              = Some ev' \<and> within_limit ev')
   \<and> (\<exists>ev'. snd (reserveCaptureWithBuffer 5000 False ''party'' [''party'' \<mapsto> held_event])
              ''party'' = Some ev' \<and> within_limit ev')
   \<and> (\<exists>ev'. snd (confirmCapture 5000 14 False ''party'' [''party'' \<mapsto> held_event]) ''party''
              = Some ev' \<and> within_limit ev')
   \<and> (\<exists>row'. select_single (snd (reserve_capture 5000 14 False False ''party'' [party_row]))
              ''party'' = Some row'
            \<and> reserved_count row' = 0 \<and> row_within_limit row')"
proof -
  have c: "within_limit held_event" "0 < reserved_or_zero held_event"
    "select_single [party_row] ''party'' = Some party_row"
    "reserved_count party_row = 0" "row_within_limit party_row"
    by (simp_all add: within_limit_def reserved_or_zero_def held_event_def party_event_def
          select_single_def party_row_def row_within_limit_def)
  have h1: "[''party'' \<mapsto> held_event] ''party'' = Some held_event \<and> within_limit held_event"
    using c by simp
  have h2: "[''party'' \<mapsto> held_event] ''party'' = Some held_event \<and> within_limit held_event
      \<and> 0 < reserved_or_zero held_event"
    using c by simp
  have h3: "select_single [party_row] ''party'' = Some party_row
      \<and> reserved_count party_row = 0 \<and> row_within_limit party_row"
    using c by simp
  note T = C5_limit_invariant[where db="[''party'' \<mapsto> held_event]" and eventId="''party''"
      and ev=held_event and now=5000 and currentHour=14 and txFails=False
      and tbl="[party_row]" and row=party_row and fetchError=False and updateError=False]
  from c T[THEN conjunct1, THEN mp, OF h1]
    T[THEN conjunct2, THEN conjunct1, THEN mp, OF h2]
    T[THEN conjunct2, THEN conjunct2, THEN mp, OF h3]
  show ?thesis by simp
qed

text \<open>
  C5 as stated fails twice.  Confirm on an event that has left draft, with all ten photos
  taken and no slot reserved, stores an eleventh capture.  The Supabase reservation on an
  event with nine photos taken and one slot reserved stores the tenth capture next to the
  reserved slot.
\<close>

theorem C5_limit_invariant_counterexample:
  "status spent_event \<noteq> Draft \<and> within_limit spent_event
   \<and> map_option within_limit
       (snd (confirmCapture 20000 14 False ''party'' [''party'' \<mapsto> spent_event]) ''party'')
     = Some False
   \<and> row_status (party_row\<lparr>reserved_count := 1\<rparr>) \<noteq> Draft
   \<and> row_within_limit (party_row\<lparr>reserved_count := 1\<rparr>)
   \<and> map_option row_within_limit
       (select_single
          (snd (reserve_capture 5000 14 False False ''party''
                  [party_row\<lparr>reserved_count := 1\<rparr>])) ''party'')
     = Some False"
  by (simp add: confirmCapture_def reserve_capture_def reserve_capture_on_def Let_def spent_event_def
        party_event_def party_row_def within_limit_def row_within_limit_def
        reserved_or_zero_def select_single_def update_rows_def shouldExpireEvent_def)

subsection \<open>An event at its limit\<close>

lemma map_update_rows:
  "(\<And>r. g (f r) = g r) \<Longrightarrow> map g (update_rows P f tbl) = map g tbl"
  by (simp add: update_rows_def)

lemma reserve_capture_at_limit:
  assumes "select_single tbl eventId = Some row" "capture_count row = photo_limit row"
  shows "\<not> success (snd (fst (reserve_capture now currentHour fetchError updateError eventId tbl)))"
    and "map capture_count (snd (reserve_capture now currentHour fetchError updateError eventId tbl))
          = map capture_count tbl"
    and "map reserved_count (snd (reserve_capture now currentHour fetchError updateError eventId tbl))
          = map reserved_count tbl"
    and "map row_analytics (snd (reserve_capture now currentHour fetchError updateError eventId tbl))
          = map row_analytics tbl"
  using assms by (auto simp: reserve_capture_def reserve_capture_on_def Let_def map_update_rows)

lemma reserve_capture_limit_reached:
  assumes "select_single tbl eventId = Some row" "capture_count row = photo_limit row"
    and "eventId \<noteq> []" "\<not> fetchError"
    and "row_status row = Active" "start_date row \<le> now" "now \<le> end_date row"
  shows "reserve_capture now currentHour fetchError updateError eventId tbl
      = ((200, \<lparr>success = False, captureNumber = None,
                message = Some ''Photo limit reached'',
                event = Some (EventInfo (capture_count row) (photo_limit row) Active)\<rparr>), tbl)"
  using assms by (simp add: reserve_capture_def reserve_capture_on_def)

lemma reserveCapture_at_limit:
  assumes "db eventId = Some ev" "captureCount ev = photoLimit ev"
  shows "snd (reserveCapture now currentHour txFails eventId db) = db"
    and "fst (reserveCapture now currentHour txFails eventId db) = Inr resp \<Longrightarrow> \<not> success resp"
  using assms
  by (auto simp: reserveCapture_def Let_def canCapture_iff split: if_splits)

lemma reserveCapture_limit_reached:
  assumes "db eventId = Some ev" "captureCount ev = photoLimit ev"
    and "eventId \<noteq> []" "\<not> txFails"
    and "status ev = Active" "startDate ev \<le> now" "now \<le> endDate ev"
  shows "reserveCapture now currentHour txFails eventId db
      = (Inr \<lparr>success = False, captureNumber = None,
              message = Some ''Photo limit reached'',
              event = Some (EventInfo (captureCount ev) (photoLimit ev) Active)\<rparr>, db)"
  using assms
  by (simp add: reserveCapture_def Let_def validateCapture_def isEventActive_def
        hasReachedLimit_def info_of_def)


subsection \<open>C6: reservation at the photo limit\<close>

text \<open>
  C6, as amended.  For an event whose capture count equals its photo limit a reservation
  never succeeds and never changes a capture count, a reserved count or the analytics.
  When moreover the event is active and \<open>now\<close> lies within its date window, the
  reservation fails with the result "Photo limit reached" and leaves every row unchanged.
  On the Firebase back end a failed reservation writes nothing at all.
\<close>

theorem C6_reservation_at_limit:
  "(select_single tbl eventId = Some row \<and> capture_count row = photo_limit row
    \<longrightarrow> \<not> success (snd (fst (reserve_capture now currentHour fetchError updateError eventId tbl)))
      \<and> map capture_count
            (snd (reserve_capture now currentHour fetchError updateError eventId tbl))
          = map capture_count tbl
      \<and> map reserved_count
            (snd (reserve_capture now currentHour fetchError updateError eventId tbl))
          = map reserved_count tbl
      \<and> map row_analytics
            (snd (reserve_capture now currentHour fetchError updateError eventId tbl))
          = map row_analytics tbl
      \<and> (eventId \<noteq> [] \<and> \<not> fetchError \<and> row_status row = Active
            \<and> start_date row \<le> now \<and> now \<le> end_date row
          \<longrightarrow> message (snd (fst (reserve_capture now currentHour fetchError updateError
                                     eventId tbl)))
                = Some ''Photo limit reached''
            \<and> snd (reserve_capture now currentHour fetchError updateError eventId tbl) = tbl))
  \<and> (db eventId = Some ev \<and> captureCount ev = photoLimit ev
    \<longrightarrow> snd (reserveCapture now currentHour txFails eventId db) = db
      \<and> (\<forall>resp. fst (reserveCapture now currentHour txFails eventId db) = Inr resp
            \<longrightarrow> \<not> success resp)
      \<and> (eventId \<noteq> [] \<and> \<not> txFails \<and> status ev = Active
            \<and> startDate ev \<le> now \<and> now \<le> endDate ev
          \<longrightarrow> (\<exists>resp. fst (reserveCapture now currentHour txFails eventId db) = Inr resp
                  \<and> message resp = Some ''Photo limit reached'')))"
proof (intro conjI impI allI)
  assume h: "select_single tbl eventId = Some row \<and> capture_count row = photo_limit row"
  note L = reserve_capture_at_limit[of tbl eventId row now currentHour fetchError updateError]
  from h L(1)
  show "\<not> success (snd (fst (reserve_capture now currentHour fetchError updateError eventId tbl)))"
    by blast
  from h L(2)
  show "map capture_count
            (snd (reserve_capture now currentHour fetchError updateError eventId tbl))
          = map capture_count tbl" by blast
  from h L(3)
  show "map reserved_count
            (snd (reserve_capture now currentHour fetchError updateError eventId tbl))
          = map reserved_count tbl" by blast
  from h L(4)
  show "map row_analytics
            (snd (reserve_capture now currentHour fetchError updateError eventId tbl))
          = map row_analytics tbl" by blast
  assume g: "eventId \<noteq> [] \<and> \<not> fetchError \<and> row_status row = Active
            \<and> start_date row \<le> now \<and> now \<le> end_date row"
  from h g have e: "reserve_capture now currentHour fetchError updateError eventId tbl
      = ((200, \<lparr>success = False, captureNumber = None,
                message = Some ''Photo limit reached'',
                event = Some (EventInfo (capture_count row) (photo_limit row) Active)\<rparr>), tbl)"
    using reserve_capture_limit_reached[of tbl eventId row fetchError now currentHour updateError]
    by blast
  show "message (snd (fst (reserve_capture now currentHour fetchError updateError
                                     eventId tbl)))
                = Some ''Photo limit reached''"
    by (simp add: e)
  show "snd (reserve_capture now currentHour fetchError updateError eventId tbl) = tbl"
    by (simp add: e)
next
  assume h: "db eventId = Some ev \<and> captureCount ev = photoLimit ev"
  then show "snd (reserveCapture now currentHour txFails eventId db) = db"
    using reserveCapture_at_limit(1)[of db eventId ev now currentHour txFails] by blast
  {
    fix resp
    assume "fst (reserveCapture now currentHour txFails eventId db) = Inr resp"
    with h show "\<not> success resp"
      using reserveCapture_at_limit(2)[of db eventId ev now currentHour txFails resp] by blast
  }
  assume g: "eventId \<noteq> [] \<and> \<not> txFails \<and> status ev = Active
            \<and> startDate ev \<le> now \<and> now \<le> endDate ev"
  from h g have "reserveCapture now currentHour txFails eventId db
      = (Inr \<lparr>success = False, captureNumber = None,
              message = Some ''Photo limit reached'',
              event = Some (EventInfo (captureCount ev) (photoLimit ev) Active)\<rparr>, db)"
    using reserveCapture_limit_reached[of db eventId ev txFails now currentHour] by blast
  then show "\<exists>resp. fst (reserveCapture now currentHour txFails eventId db) = Inr resp
                  \<and> message resp = Some ''Photo limit reached''"
    by simp
qed

theorem C6_reservation_at_limit_witness:
  "(select_single [full_row] ''party'' = Some full_row
      \<and> capture_count full_row = photo_limit full_row
      \<and> ''party'' \<noteq> [] \<and> row_status full_row = Active
      \<and> start_date full_row \<le> 5000 \<and> 5000 \<le> end_date full_row)
   \<and> \<not> success (snd (fst (reserve_capture 5000 14 False False ''party'' [full_row])))
   \<and> message (snd (fst (reserve_capture 5000 14 False False ''party'' [full_row])))
       = Some ''Photo limit reached''
   \<and> snd (reserve_capture 5000 14 False False ''party'' [full_row]) = [full_row]
   \<and> (captureCount full_event = photoLimit full_event \<and> status full_event = Active
      \<and> startDate full_event \<le> 5000 \<and> 5000 \<le> endDate full_event)
   \<and> snd (reserveCapture 5000 14 False ''party'' [''party'' \<mapsto> full_event])
       = [''party'' \<mapsto> full_event]
   \<and> (\<exists>resp. fst (reserveCapture 5000 14 False ''party'' [''party'' \<mapsto> full_event])
                = Inr resp
            \<and> message resp = Some ''Photo limit reached'')"
proof -
  have c: "select_single [full_row] ''party'' = Some full_row"
    "capture_count full_row = photo_limit full_row"
    "row_status full_row = Active" "start_date full_row \<le> 5000" "5000 \<le> end_date full_row"
    "captureCount full_event = photoLimit full_event" "status full_event = Active"
    "startDate full_event \<le> 5000" "5000 \<le> endDate full_event"
    by (simp_all add: full_row_def party_row_def full_event_def party_event_def
          select_single_def)
  have h1: "select_single [full_row] ''party'' = Some full_row
      \<and> capture_count full_row = photo_limit full_row"
    using c by simp
  have g1: "''party'' \<noteq> [] \<and> \<not> False \<and> row_status full_row = Active
      \<and> start_date full_row \<le> 5000 \<and> 5000 \<le> end_date full_row"
    using c by simp
  have h2: "[''party'' \<mapsto> full_event] ''party'' = Some full_event
      \<and> captureCount full_event = photoLimit full_event"
    using c by simp
  have g2: "''party'' \<noteq> [] \<and> \<not> False \<and> status full_event = Active
      \<and> startDate full_event \<le> 5000 \<and> 5000 \<le> endDate full_event"
    using c by simp
  note T = C6_reservation_at_limit[where tbl="[full_row]" and eventId="''party''"
      and row=full_row and now=5000 and currentHour=14 and fetchError=False
      and updateError=False and txFails=False and db="[''party'' \<mapsto> full_event]"
      and ev=full_event]
  note A = T[THEN conjunct1, THEN mp, OF h1]
  note B = T[THEN conjunct2, THEN mp, OF h2]
  from A have a1:
    "\<not> success (snd (fst (reserve_capture 5000 14 False False ''party'' [full_row])))"
    by blast
  from A g1 have a2:
    "message (snd (fst (reserve_capture 5000 14 False False ''party'' [full_row])))
       = Some ''Photo limit reached''
     \<and> snd (reserve_capture 5000 14 False False ''party'' [full_row]) = [full_row]"
    by blast
  from B have b1: "snd (reserveCapture 5000 14 False ''party'' [''party'' \<mapsto> full_event])
       = [''party'' \<mapsto> full_event]"
    by blast
  from B g2 have b2:
    "\<exists>resp. fst (reserveCapture 5000 14 False ''party'' [''party'' \<mapsto> full_event])
                = Inr resp
            \<and> message resp = Some ''Photo limit reached''"
    by blast
  from c a1 a2 b1 b2 show ?thesis by simp
qed

text \<open>
  C6 as stated fails on the checks that come before the limit check.  With the capture
  count at the photo limit, an active event past its end date gets the result "Event has
  ended" and its row is rewritten (status and gallery expiry); an expired event, which is
  what an event becomes when a reservation takes its last slot, gets "Event is not active";
  an event that has not started gets "Event has not started yet".
\<close>

theorem C6_reservation_at_limit_counterexample:
  "capture_count full_row = photo_limit full_row
   \<and> reserve_capture 20000 14 False False ''party'' [full_row]
       = ((200, \<lparr>success = False, captureNumber = None,
                 message = Some ''Event has ended'', event = None\<rparr>),
          [full_row\<lparr>row_status := Expired,
                     gallery_expires_at := Some (20000 + fifteen_days)\<rparr>])
   \<and> capture_count (full_row\<lparr>row_status := Expired\<rparr>)
       = photo_limit (full_row\<lparr>row_status := Expired\<rparr>)
   \<and> fst (reserve_capture 5000 14 False False ''party'' [full_row\<lparr>row_status := Expired\<rparr>])
       = (200, \<lparr>success = False, captureNumber = None,
                message = Some ''Event is not active'',
                event = Some (EventInfo 10 10 Expired)\<rparr>)
   \<and> fst (reserve_capture (- 1) 14 False False ''party'' [full_row])
       = (200, \<lparr>success = False, captureNumber = None,
                message = Some ''Event has not started yet'', event = None\<rparr>)"
  by (simp add: reserve_capture_def reserve_capture_on_def select_single_def update_rows_def full_row_def
        party_row_def)
subsection \<open>C3: the order of the checks\<close>

text \<open>
  C3, as amended.  The Supabase handler checks in a fixed order that the event exists, that
  its status is active, that \<open>now\<close> is not before the start date, that \<open>now\<close> is not after
  the end date and that the capture count is below the photo limit; the first check that
  fails decides the answer, each check has a result of its own ("Event not found", "Event
  is not active", "Event has not started yet", "Event has ended", "Photo limit reached"),
  and each result is a response, never an exception.  The Firebase callable throws the error
  \<open>not-found\<close> for a missing event.  For an existing event that is cleaned, expired or
  active, \<open>validateCapture\<close> decides in the order status cleaned ("Event has been cleaned
  up"), status expired ("Event has expired"), start date, end date, photo limit and, last,
  the reserved slots ("No available slots (some are reserved)"), and the callable returns
  each of these results as a response and writes nothing.
\<close>

theorem C3_checks_in_order:
  "(eventId \<noteq> [] \<and> (fetchError \<or> select_single tbl eventId = None)
    \<longrightarrow> reserve_capture now currentHour fetchError updateError eventId tbl
          = ((404, \<lparr>success = False, captureNumber = None,
              message = Some ''Event not found'', event = None\<rparr>), tbl))
  \<and> (eventId \<noteq> [] \<and> \<not> fetchError \<and> select_single tbl eventId = Some row
      \<and> row_status row \<noteq> Active
    \<longrightarrow> reserve_capture now currentHour fetchError updateError eventId tbl
          = ((200, \<lparr>success = False, captureNumber = None,
              message = Some ''Event is not active'', event = Some (EventInfo (capture_count row) (photo_limit row) (row_status row))\<rparr>), tbl))
  \<and> (eventId \<noteq> [] \<and> \<not> fetchError \<and> select_single tbl eventId = Some row
      \<and> row_status row = Active \<and> now < start_date row
    \<longrightarrow> reserve_capture now currentHour fetchError updateError eventId tbl
          = ((200, \<lparr>success = False, captureNumber = None,
              message = Some ''Event has not started yet'', event = None\<rparr>), tbl))
  \<and> (eventId \<noteq> [] \<and> \<not> fetchError \<and> select_single tbl eventId = Some row
      \<and> row_status row = Active \<and> start_date row \<le> now \<and> end_date row < now
    \<longrightarrow> fst (reserve_capture now currentHour fetchError updateError eventId tbl)
          = (200, \<lparr>success = False, captureNumber = None,
              message = Some ''Event has ended'', event = None\<rparr>))
  \<and> (eventId \<noteq> [] \<and> \<not> fetchError \<and> select_single tbl eventId = Some row
      \<and> row_status row = Active \<and> start_date row \<le> now \<and> now \<le> end_date row
      \<and> photo_limit row \<le> capture_count row
    \<longrightarrow> reserve_capture now currentHour fetchError updateError eventId tbl
          = ((200, \<lparr>success = False, captureNumber = None,
              message = Some ''Photo limit reached'', event = Some (EventInfo (capture_count row) (photo_limit row) (row_status row))\<rparr>), tbl))
  \<and> (eventId \<noteq> [] \<and> \<not> txFails \<and> db eventId = None
    \<longrightarrow> reserveCapture now currentHour txFails eventId db
          = (Inl (HttpsError ''not-found'' ''Event not found''), db))
  \<and> (eventId \<noteq> [] \<and> \<not> txFails \<and> db eventId = Some ev
      \<and> status ev = Cleaned
    \<longrightarrow> reserveCapture now currentHour txFails eventId db
          = (Inr \<lparr>success = False, captureNumber = None,
              message = Some ''Event has been cleaned up'', event = Some (EventInfo (captureCount ev) (photoLimit ev) (status ev))\<rparr>, db))
  \<and> (eventId \<noteq> [] \<and> \<not> txFails \<and> db eventId = Some ev
      \<and> status ev = Expired
    \<longrightarrow> reserveCapture now currentHour txFails eventId db
          = (Inr \<lparr>success = False, captureNumber = None,
              message = Some ''Event has expired'', event = Some (EventInfo (captureCount ev) (photoLimit ev) (status ev))\<rparr>, db))
  \<and> (eventId \<noteq> [] \<and> \<not> txFails \<and> db eventId = Some ev
      \<and> status ev = Active \<and> now < startDate ev
    \<longrightarrow> reserveCapture now currentHour txFails eventId db
          = (Inr \<lparr>success = False, captureNumber = None,
              message = Some ''Event has not started yet'', event = Some (EventInfo (captureCount ev) (photoLimit ev) (status ev))\<rparr>, db))
  \<and> (eventId \<noteq> [] \<and> \<not> txFails \<and> db eventId = Some ev
      \<and> status ev = Active \<and> startDate ev \<le> now \<and> endDate ev < now
    \<longrightarrow> reserveCapture now currentHour txFails eventId db
          = (Inr \<lparr>success = False, captureNumber = None,
              message = Some ''Event has ended'', event = Some (EventInfo (captureCount ev) (photoLimit ev) (status ev))\<rparr>, db))
  \<and> (eventId \<noteq> [] \<and> \<not> txFails \<and> db eventId = Some ev
      \<and> status ev = Active \<and> startDate ev \<le> now \<and> now \<le> endDate ev
      \<and> photoLimit ev \<le> captureCount ev
    \<longrightarrow> reserveCapture now currentHour txFails eventId db
          = (Inr \<lparr>success = False, captureNumber = None,
              message = Some ''Photo limit reached'', event = Some (EventInfo (captureCount ev) (photoLimit ev) (status ev))\<rparr>, db))
  \<and> (eventId \<noteq> [] \<and> \<not> txFails \<and> db eventId = Some ev
      \<and> status ev = Active \<and> startDate ev \<le> now \<and> now \<le> endDate ev
      \<and> captureCount ev < photoLimit ev
      \<and> photoLimit ev \<le> captureCount ev + reserved_or_zero ev
    \<longrightarrow> reserveCapture now currentHour txFails eventId db
          = (Inr \<lparr>success = False, captureNumber = None,
              message = Some ''No available slots (some are reserved)'', event = Some (EventInfo (captureCount ev) (photoLimit ev) (status ev))\<rparr>, db))"
  by (auto simp: reserve_capture_def reserve_capture_on_def reserveCapture_def Let_def
        validateCapture_def isEventActive_def hasReachedLimit_def hasAvailableSlots_def
        info_of_def)

theorem C3_checks_in_order_witness:
  "reserve_capture 5000 14 False False ''party'' []
      = ((404, \<lparr>success = False, captureNumber = None,
          message = Some ''Event not found'', event = None\<rparr>), [])
   \<and> reserve_capture 5000 14 False False ''party'' [party_row\<lparr>row_status := Expired\<rparr>]
      = ((200, \<lparr>success = False, captureNumber = None,
          message = Some ''Event is not active'', event = Some (EventInfo 9 10 Expired)\<rparr>), [party_row\<lparr>row_status := Expired\<rparr>])
   \<and> reserve_capture (- 1) 14 False False ''party'' [party_row]
      = ((200, \<lparr>success = False, captureNumber = None,
          message = Some ''Event has not started yet'', event = None\<rparr>), [party_row])
   \<and> fst (reserve_capture 20000 14 False False ''party'' [party_row])
      = (200, \<lparr>success = False, captureNumber = None,
          message = Some ''Event has ended'', event = None\<rparr>)
   \<and> reserve_capture 5000 14 False False ''party'' [full_row]
      = ((200, \<lparr>success = False, captureNumber = None,
          message = Some ''Photo limit reached'', event = Some (EventInfo 10 10 Active)\<rparr>), [full_row])
   \<and> reserveCapture 5000 14 False ''party'' Map.empty
      = (Inl (HttpsError ''not-found'' ''Event not found''), Map.empty)
   \<and> reserveCapture 5000 14 False ''party'' [''party'' \<mapsto> spent_event]
      = (Inr \<lparr>success = False, captureNumber = None,
          message = Some ''Event has been cleaned up'', event = Some (EventInfo 10 10 Cleaned)\<rparr>, [''party'' \<mapsto> spent_event])
   \<and> reserveCapture 5000 14 False ''party'' [''party'' \<mapsto> (party_event\<lparr>status := Expired\<rparr>)]
      = (Inr \<lparr>success = False, captureNumber = None,
          message = Some ''Event has expired'', event = Some (EventInfo 9 10 Expired)\<rparr>, [''party'' \<mapsto> (party_event\<lparr>status := Expired\<rparr>)])
   \<and> reserveCapture (- 1) 14 False ''party'' [''party'' \<mapsto> party_event]
      = (Inr \<lparr>success = False, captureNumber = None,
          message = Some ''Event has not started yet'', event = Some (EventInfo 9 10 Active)\<rparr>, [''party'' \<mapsto> party_event])
   \<and> reserveCapture 20000 14 False ''party'' [''party'' \<mapsto> party_event]
      = (Inr \<lparr>success = False, captureNumber = None,
          message = Some ''Event has ended'', event = Some (EventInfo 9 10 Active)\<rparr>, [''party'' \<mapsto> party_event])
   \<and> reserveCapture 5000 14 False ''party'' [''party'' \<mapsto> full_event]
      = (Inr \<lparr>success = False, captureNumber = None,
          message = Some ''Photo limit reached'', event = Some (EventInfo 10 10 Active)\<rparr>, [''party'' \<mapsto> full_event])
   \<and> reserveCapture 5000 14 False ''party'' [''party'' \<mapsto> (party_event\<lparr>reservedCount := Some 1\<rparr>)]
      = (Inr \<lparr>success = False, captureNumber = None,
          message = Some ''No available slots (some are reserved)'', event = Some (EventInfo 9 10 Active)\<rparr>, [''party'' \<mapsto> (party_event\<lparr>reservedCount := Some 1\<rparr>)])"
proof -
  have c1: "reserve_capture 5000 14 False False ''party'' []
     = ((404, \<lparr>success = False, captureNumber = None,
         message = Some ''Event not found'', event = None\<rparr>), [])"
    using C3_checks_in_order[where eventId="''party''"
        and currentHour=14
        and fetchError=False
        and updateError=False
        and tbl="[]"
        and row="party_row"
        and now="5000",
       THEN conjunct1, THEN mp]
    by (simp add: select_single_def party_row_def full_row_def party_event_def
          full_event_def spent_event_def reserved_or_zero_def)
  have c2: "reserve_capture 5000 14 False False ''party'' [party_row\<lparr>row_status := Expired\<rparr>]
     = ((200, \<lparr>success = False, captureNumber = None,
         message = Some ''Event is not active'', event = Some (EventInfo 9 10 Expired)\<rparr>), [party_row\<lparr>row_status := Expired\<rparr>])"
    using C3_checks_in_order[where eventId="''party''"
        and currentHour=14
        and fetchError=False
        and updateError=False
        and tbl="[party_row\<lparr>row_status := Expired\<rparr>]"
        and row="(party_row\<lparr>row_status := Expired\<rparr>)"
        and now="5000",
       THEN conjunct2, THEN conjunct1, THEN mp]
    by (simp add: select_single_def party_row_def full_row_def party_event_def
          full_event_def spent_event_def reserved_or_zero_def)
  have c3: "reserve_capture (- 1) 14 False False ''party'' [party_row]
     = ((200, \<lparr>success = False, captureNumber = None,
         message = Some ''Event has not started yet'', event = None\<rparr>), [party_row])"
    using C3_checks_in_order[where eventId="''party''"
        and currentHour=14
        and fetchError=False
        and updateError=False
        and tbl="[party_row]"
        and row="party_row"
        and now="- 1",
       THEN conjunct2, THEN conjunct2, THEN conjunct1, THEN mp]
    by (simp add: select_single_def party_row_def full_row_def party_event_def
          full_event_def spent_event_def reserved_or_zero_def)
  have c4: "fst (reserve_capture 20000 14 False False ''party'' [party_row])
     = (200, \<lparr>success = False, captureNumber = None,
         message = Some ''Event has ended'', event = None\<rparr>)"
    using C3_checks_in_order[where eventId="''party''"
        and currentHour=14
        and fetchError=False
        and updateError=False
        and tbl="[party_row]"
        and row="party_row"
        and now="20000",
       THEN conjunct2, THEN conjunct2, THEN conjunct2, THEN conjunct1, THEN mp]
    by (simp add: select_single_def party_row_def full_row_def party_event_def
          full_event_def spent_event_def reserved_or_zero_def)
  have c5: "reserve_capture 5000 14 False False ''party'' [full_row]
     = ((200, \<lparr>success = False, captureNumber = None,
         message = Some ''Photo limit reached'', event = Some (EventInfo 10 10 Active)\<rparr>), [full_row])"
    using C3_checks_in_order[where eventId="''party''"
        and currentHour=14
        and fetchError=False
        and updateError=False
        and tbl="[full_row]"
        and row="full_row"
        and now="5000",
       THEN conjunct2, THEN conjunct2, THEN conjunct2, THEN conjunct2, THEN conjunct1, THEN mp]
    by (simp add: select_single_def party_row_def full_row_def party_event_def
          full_event_def spent_event_def reserved_or_zero_def)
  have c6: "reserveCapture 5000 14 False ''party'' Map.empty
     = (Inl (HttpsError ''not-found'' ''Event not found''), Map.empty)"
    using C3_checks_in_order[where eventId="''party''"
        and currentHour=14
        and txFails=False
        and db="Map.empty"
        and ev="party_event"
        and now="5000",
       THEN conjunct2, THEN conjunct2, THEN conjunct2, THEN conjunct2, THEN conjunct2, THEN conjunct1, THEN mp]
    by (simp add: select_single_def party_row_def full_row_def party_event_def
          full_event_def spent_event_def reserved_or_zero_def)
  have c7: "reserveCapture 5000 14 False ''party'' [''party'' \<mapsto> spent_event]
     = (Inr \<lparr>success = False, captureNumber = None,
         message = Some ''Event has been cleaned up'', event = Some (EventInfo 10 10 Cleaned)\<rparr>, [''party'' \<mapsto> spent_event])"
    using C3_checks_in_order[where eventId="''party''"
        and currentHour=14
        and txFails=False
        and db="[''party'' \<mapsto> spent_event]"
        and ev="spent_event"
        and now="5000",
       THEN conjunct2, THEN conjunct2, THEN conjunct2, THEN conjunct2, THEN conjunct2, THEN conjunct2, THEN conjunct1, THEN mp]
    by (simp add: select_single_def party_row_def full_row_def party_event_def
          full_event_def spent_event_def reserved_or_zero_def)
  have c8: "reserveCapture 5000 14 False ''party'' [''party'' \<mapsto> (party_event\<lparr>status := Expired\<rparr>)]
     = (Inr \<lparr>success = False, captureNumber = None,
         message = Some ''Event has expired'', event = Some (EventInfo 9 10 Expired)\<rparr>, [''party'' \<mapsto> (party_event\<lparr>status := Expired\<rparr>)])"
    using C3_checks_in_order[where eventId="''party''"
        and currentHour=14
        and txFails=False
        and db="[''party'' \<mapsto> (party_event\<lparr>status := Expired\<rparr>)]"
        and ev="(party_event\<lparr>status := Expired\<rparr>)"
        and now="5000",
       THEN conjunct2, THEN conjunct2, THEN conjunct2, THEN conjunct2, THEN conjunct2, THEN conjunct2, THEN conjunct2, THEN conjunct1, THEN mp]
    by (simp add: select_single_def party_row_def full_row_def party_event_def
          full_event_def spent_event_def reserved_or_zero_def)
  have c9: "reserveCapture (- 1) 14 False ''party'' [''party'' \<mapsto> party_event]
     = (Inr \<lparr>success = False, captureNumber = None,
         message = Some ''Event has not started yet'', event = Some (EventInfo 9 10 Active)\<rparr>, [''party'' \<mapsto> party_event])"
    using C3_checks_in_order[where eventId="''party''"
        and currentHour=14
        and txFails=False
        and db="[''party'' \<mapsto> party_event]"
        and ev="party_event"
        and now="- 1",
       THEN conjunct2, THEN conjunct2, THEN conjunct2, THEN conjunct2, THEN conjunct2, THEN conjunct2, THEN conjunct2, THEN conjunct2, THEN conjunct1, THEN mp]
    by (simp add: select_single_def party_row_def full_row_def party_event_def
          full_event_def spent_event_def reserved_or_zero_def)
  have c10: "reserveCapture 20000 14 False ''party'' [''party'' \<mapsto> party_event]
     = (Inr \<lparr>success = False, captureNumber = None,
         message = Some ''Event has ended'', event = Some (EventInfo 9 10 Active)\<rparr>, [''party'' \<mapsto> party_event])"
    using C3_checks_in_order[where eventId="''party''"
        and currentHour=14
        and txFails=False
        and db="[''party'' \<mapsto> party_event]"
        and ev="party_event"
        and now="20000",
       THEN conjunct2, THEN conjunct2, THEN conjunct2, THEN conjunct2, THEN conjunct2, THEN conjunct2, THEN conjunct2, THEN conjunct2, THEN conjunct2, THEN conjunct1, THEN mp]
    by (simp add: select_single_def party_row_def full_row_def party_event_def
          full_event_def spent_event_def reserved_or_zero_def)
  have c11: "reserveCapture 5000 14 False ''party'' [''party'' \<mapsto> full_event]
     = (Inr \<lparr>success = False, captureNumber = None,
         message = Some ''Photo limit reached'', event = Some (EventInfo 10 10 Active)\<rparr>, [''party'' \<mapsto> full_event])"
    using C3_checks_in_order[where eventId="''party''"
        and currentHour=14
        and txFails=False
        and db="[''party'' \<mapsto> full_event]"
        and ev="full_event"
        and now="5000",
       THEN conjunct2, THEN conjunct2, THEN conjunct2, THEN conjunct2, THEN conjunct2, THEN conjunct2, THEN conjunct2, THEN conjunct2, THEN conjunct2, THEN conjunct2, THEN conjunct1, THEN mp]
    by (simp add: select_single_def party_row_def full_row_def party_event_def
          full_event_def spent_event_def reserved_or_zero_def)
  have c12: "reserveCapture 5000 14 False ''party'' [''party'' \<mapsto> (party_event\<lparr>reservedCount := Some 1\<rparr>)]
     = (Inr \<lparr>success = False, captureNumber = None,
         message = Some ''No available slots (some are reserved)'', event = Some (EventInfo 9 10 Active)\<rparr>, [''party'' \<mapsto> (party_event\<lparr>reservedCount := Some 1\<rparr>)])"
    using C3_checks_in_order[where eventId="''party''"
        and currentHour=14
        and txFails=False
        and db="[''party'' \<mapsto> (party_event\<lparr>reservedCount := Some 1\<rparr>)]"
        and ev="(party_event\<lparr>reservedCount := Some 1\<rparr>)"
        and now="5000",
       THEN conjunct2, THEN conjunct2, THEN conjunct2, THEN conjunct2, THEN conjunct2, THEN conjunct2, THEN conjunct2, THEN conjunct2, THEN conjunct2, THEN conjunct2, THEN conjunct2, THEN mp]
    by (simp add: select_single_def party_row_def full_row_def party_event_def
          full_event_def spent_event_def reserved_or_zero_def)
  from c1 c2 c3 c4 c5 c6 c7 c8 c9 c10 c11 c12
  show ?thesis by blast
qed

text \<open>
  C3 as stated fails on the Firebase back end.  A missing event is answered with a thrown
  \<open>not-found\<close> error, not with a returned result.  And for a draft event no status result
  exists: \<open>validateCapture\<close> tests the statuses cleaned and expired only, a draft event
  then fails \<open>isEventActive\<close>, and the function reads that as a failure of the dates, so
  the example event as a draft gets "Event has ended" in the middle of its date window and
  "Event has not started yet" before its start.
\<close>

theorem C3_checks_in_order_counterexample:
  "fst (reserveCapture 5000 14 False ''party'' Map.empty)
     = Inl (HttpsError ''not-found'' ''Event not found'')
   \<and> status draft_event = Draft
   \<and> startDate draft_event \<le> 5000 \<and> 5000 \<le> endDate draft_event
   \<and> fst (reserveCapture 5000 14 False ''party'' [''party'' \<mapsto> draft_event])
       = Inr \<lparr>success = False, captureNumber = None, message = Some ''Event has ended'',
              event = Some (EventInfo 9 10 Draft)\<rparr>
   \<and> fst (reserveCapture (- 1) 14 False ''party'' [''party'' \<mapsto> draft_event])
       = Inr \<lparr>success = False, captureNumber = None,
              message = Some ''Event has not started yet'',
              event = Some (EventInfo 9 10 Draft)\<rparr>"
  by (simp add: validateCapture_def isEventActive_def info_of_def draft_event_def
        party_event_def reserveCapture_def)

lemma validateCapture_draft:
  assumes "status ev = Draft"
  shows "reason (validateCapture now (Some ev))
           = Some (if now < startDate ev then ''Event has not started yet''
                   else ''Event has ended'')"
  using assms by (simp add: validateCapture_def isEventActive_def)

subsection \<open>The end of the event\<close>

lemma reserve_capture_expires_once:
  assumes "eventId \<noteq> []" "\<not> fetchError" "select_single tbl eventId = Some row"
    and "row_status row = Active" "start_date row \<le> now" "end_date row < now"
  shows "fst (reserve_capture now currentHour fetchError updateError eventId tbl)
           = (200, \<lparr>success = False, captureNumber = None,
                    message = Some ''Event has ended'', event = None\<rparr>)"
    and "select_single (snd (reserve_capture now currentHour fetchError updateError eventId tbl))
           eventId
         = Some (row\<lparr>row_status := Expired, gallery_expires_at := Some (now + fifteen_days)\<rparr>)"
    and "snd (reserve_capture now2 hour2 fetchError2 updateError2 eventId
                (snd (reserve_capture now currentHour fetchError updateError eventId tbl)))
         = snd (reserve_capture now currentHour fetchError updateError eventId tbl)"
    and "\<not> success (snd (fst (reserve_capture now2 hour2 fetchError2 updateError2 eventId
                (snd (reserve_capture now currentHour fetchError updateError eventId tbl)))))"
proof -
  let ?t = "snd (reserve_capture now currentHour fetchError updateError eventId tbl)"
  show 1: "fst (reserve_capture now currentHour fetchError updateError eventId tbl)
           = (200, \<lparr>success = False, captureNumber = None,
                    message = Some ''Event has ended'', event = None\<rparr>)"
    using assms by (simp add: reserve_capture_def reserve_capture_on_def)
  show 2: "select_single ?t eventId
         = Some (row\<lparr>row_status := Expired, gallery_expires_at := Some (now + fifteen_days)\<rparr>)"
    using assms
    by (simp add: reserve_capture_def reserve_capture_on_def select_single_update_rows
          select_single_row_id)
  show "snd (reserve_capture now2 hour2 fetchError2 updateError2 eventId ?t) = ?t"
    using 2 assms(1) by (simp add: reserve_capture_def[of now2] reserve_capture_on_def)
  show "\<not> success (snd (fst (reserve_capture now2 hour2 fetchError2 updateError2 eventId ?t)))"
    using 2 assms(1) by (simp add: reserve_capture_def[of now2] reserve_capture_on_def)
qed

lemma reserveCapture_failure_writes_nothing:
  assumes "\<not> canCapture (validateCapture now (Some ev))" "db eventId = Some ev"
  shows "snd (reserveCapture now currentHour txFails eventId db) = db"
  using assms by (simp add: reserveCapture_def Let_def)

subsection \<open>C4: a reservation after the end date\<close>

text \<open>
  C4.  The claim asks that a reservation on an active event past its end date answers
  "Event has ended" and moves the event to expired, with the gallery expiry fifteen days
  ahead.  The Supabase handler does so, once (\<open>reserve_capture_expires_once\<close> above).  The
  Firebase callable announces the same in its header ("auto-expires event if limit reached
  or date passed") but returns on the failed validation before any write: evaluated on the
  example event at instant 20000, past its end date 10000, it answers "Event has ended"
  and leaves the document as it was, status active and no gallery expiry, where the
  Supabase handler rewrites the row.
\<close>

theorem C4_firebase_ended_event_stays_active:
  "status party_event = Active \<and> endDate party_event < 20000
   \<and> reserveCapture 20000 14 False ''party'' [''party'' \<mapsto> party_event]
       = (Inr \<lparr>success = False, captureNumber = None, message = Some ''Event has ended'',
               event = Some (EventInfo 9 10 Active)\<rparr>,
          [''party'' \<mapsto> party_event])
   \<and> reserve_capture 20000 14 False False ''party'' [party_row]
       = ((200, \<lparr>success = False, captureNumber = None,
                 message = Some ''Event has ended'', event = None\<rparr>),
          [party_row\<lparr>row_status := Expired,
                      gallery_expires_at := Some (20000 + fifteen_days)\<rparr>])"
  by (simp add: reserveCapture_def validateCapture_def isEventActive_def info_of_def
        party_event_def reserve_capture_def reserve_capture_on_def select_single_def
        update_rows_def party_row_def)

subsection \<open>Two calls on one event\<close>

lemma update_rows_no_match:
  "\<forall>r\<in>set tbl. \<not> P r \<Longrightarrow> update_rows P f tbl = tbl"
  by (simp add: update_rows_def map_idI)

lemma reserve_capture_on_lost_race:
  assumes "eventId \<noteq> []" "\<not> fetchError" "select_single seen eventId = Some row"
    and "row_status row = Active" "start_date row \<le> now" "now \<le> end_date row"
    and "capture_count row < photo_limit row"
    and "\<forall>r\<in>set tbl. \<not> (row_id r = eventId \<and> capture_count r = capture_count row)"
  shows "snd (reserve_capture_on now currentHour fetchError updateError eventId seen tbl) = tbl"
    and "updateError \<Longrightarrow>
         fst (reserve_capture_on now currentHour fetchError updateError eventId seen tbl)
           = (409, \<lparr>success = False, captureNumber = None,
                    message = Some ''Concurrent update conflict, please retry'',
                    event = None\<rparr>)"
  using assms
  by (simp_all add: reserve_capture_on_def Let_def update_rows_no_match)

lemma only_selected_row_has_id:
  assumes "select_single tbl i = Some row" "r \<in> set tbl" "row_id r = i"
  shows "r = row"
proof -
  from assms(2,3) have "r \<in> set (filter (\<lambda>r. row_id r = i) tbl)" by simp
  with assms(1) show ?thesis by (simp add: select_single_Some_iff)
qed

lemma supabase_race:
  assumes "eventId \<noteq> []" "select_single tbl eventId = Some row" "row_status row = Active"
    and "start_date row \<le> nowA" "nowA \<le> end_date row"
    and "start_date row \<le> nowB" "nowB \<le> end_date row"
    and "capture_count row < photo_limit row"
  shows "success (snd (fst (reserve_capture nowA hourA False False eventId tbl)))"
    and "captureNumber (snd (fst (reserve_capture nowA hourA False False eventId tbl)))
           = Some (capture_count row + 1)"
    and "snd (reserve_capture_on nowB hourB False updateErrorB eventId tbl
                (snd (reserve_capture nowA hourA False False eventId tbl)))
           = snd (reserve_capture nowA hourA False False eventId tbl)"
    and "\<exists>row'. select_single (snd (reserve_capture nowA hourA False False eventId tbl)) eventId
                  = Some row'
              \<and> capture_count row' = capture_count row + 1"
    and "updateErrorB \<Longrightarrow>
         fst (reserve_capture_on nowB hourB False updateErrorB eventId tbl
                (snd (reserve_capture nowA hourA False False eventId tbl)))
           = (409, \<lparr>success = False, captureNumber = None,
                    message = Some ''Concurrent update conflict, please retry'',
                    event = None\<rparr>)"
proof -
  let ?A = "reserve_capture nowA hourA False False eventId tbl"
  from reserve_capture_success[of eventId False False tbl row nowA hourA] assms
  obtain resp row' where a: "fst ?A = (200, resp)" "select_single (snd ?A) eventId = Some row'"
    "success resp" "captureNumber resp = Some (capture_count row + 1)"
    "capture_count row' = capture_count row + 1"
    by auto
  from a show "success (snd (fst ?A))" by simp
  from a show "captureNumber (snd (fst ?A)) = Some (capture_count row + 1)" by simp
  from a show "\<exists>row'. select_single (snd ?A) eventId = Some row'
              \<and> capture_count row' = capture_count row + 1" by blast
  have n: "\<forall>r\<in>set (snd ?A). \<not> (row_id r = eventId \<and> capture_count r = capture_count row)"
  proof (intro ballI notI)
    fix r assume "r \<in> set (snd ?A)" "row_id r = eventId \<and> capture_count r = capture_count row"
    with only_selected_row_has_id[OF a(2), of r] a(5) show False by simp
  qed
  note L = reserve_capture_on_lost_race[where eventId=eventId and fetchError=False
      and seen=tbl and row=row and now=nowB and tbl="snd ?A" and currentHour=hourB
      and updateError=updateErrorB]
  from L(1) assms n
  show "snd (reserve_capture_on nowB hourB False updateErrorB eventId tbl (snd ?A)) = snd ?A"
    by simp
  assume "updateErrorB"
  with L(2) assms n
  show "fst (reserve_capture_on nowB hourB False updateErrorB eventId tbl (snd ?A))
           = (409, \<lparr>success = False, captureNumber = None,
                    message = Some ''Concurrent update conflict, please retry'',
                    event = None\<rparr>)"
    by simp
qed

lemma firebase_two_calls:
  assumes "eventId \<noteq> []" "db eventId = Some ev" "status ev = Active"
    and "startDate ev \<le> nowA" "nowA \<le> endDate ev"
    and "startDate ev \<le> nowB" "nowB \<le> endDate ev"
    and "0 \<le> reserved_or_zero ev"
    and "captureCount ev + 1 + reserved_or_zero ev < photoLimit ev"
  shows "\<exists>respA respB.
      fst (reserveCapture nowA hourA False eventId db) = Inr respA
    \<and> success respA \<and> captureNumber respA = Some (captureCount ev + 1)
    \<and> fst (reserveCapture nowB hourB False eventId
             (snd (reserveCapture nowA hourA False eventId db))) = Inr respB
    \<and> success respB \<and> captureNumber respB = Some (captureCount ev + 2)"
  using assms
  by (auto simp: reserveCapture_def Let_def canCapture_iff shouldExpireEvent_def
        hasReachedLimit_def reserved_or_zero_def split: option.splits)


lemma race_loser_without_error:
  assumes "eventId \<noteq> []" "select_single seen eventId = Some row"
    and "row_status row = Active" "start_date row \<le> now" "now \<le> end_date row"
    and "capture_count row < photo_limit row"
  shows "success (snd (fst (reserve_capture_on now currentHour False False eventId seen tbl)))"
    and "captureNumber (snd (fst (reserve_capture_on now currentHour False False eventId seen tbl)))
           = Some (capture_count row + 1)"
  using assms by (simp_all add: reserve_capture_on_def Let_def)

subsection \<open>C2: two reservations at once\<close>

text \<open>
  C2.  The claim asks that of two calls racing on an event with capture count \<open>N\<close> exactly
  one succeeds with capture number \<open>N + 1\<close> and the other receives the conflict result.
  The conditional update of the Supabase handler does keep the second write from taking
  effect (\<open>supabase_race\<close> above): it matches no row and the capture count stays
  \<open>N + 1\<close>.  But the handler answers "Concurrent update conflict, please retry" only
  when the database client reports an error, and an update that matches no row is not an
  error of the client; whatever the table holds by then, a call that read a row passing the
  checks and meets no error is answered with success (\<open>race_loser_without_error\<close>
  above).  Evaluated on the example event with nine photos taken, both calls having read
  the row before either wrote: the first is answered success with capture number 10, the
  second is answered success with capture number 10 as well, and the table holds one
  capture more, not two.  The Firebase callable, whose body is a transaction, answers two
  calls on an event with five photos taken with the capture numbers 6 and 7.
\<close>

theorem C2_race_loser_told_success:
  "fst (reserve_capture 5000 14 False False ''party'' [party_row])
     = (200, \<lparr>success = True, captureNumber = Some 10, message = None,
              event = Some (EventInfo 10 10 Expired)\<rparr>)
   \<and> fst (reserve_capture_on 5001 14 False False ''party'' [party_row]
            (snd (reserve_capture 5000 14 False False ''party'' [party_row])))
     = (200, \<lparr>success = True, captureNumber = Some 10, message = None,
              event = Some (EventInfo 10 10 Expired)\<rparr>)
   \<and> snd (reserve_capture_on 5001 14 False False ''party'' [party_row]
            (snd (reserve_capture 5000 14 False False ''party'' [party_row])))
     = snd (reserve_capture 5000 14 False False ''party'' [party_row])
   \<and> map capture_count (snd (reserve_capture 5000 14 False False ''party'' [party_row]))
     = [10]
   \<and> fst (reserveCapture 5000 14 False ''party'' [''party'' \<mapsto> held_event])
     = Inr \<lparr>success = True, captureNumber = Some 6, message = None,
            event = Some (EventInfo 6 10 Active)\<rparr>
   \<and> fst (reserveCapture 5001 14 False ''party''
            (snd (reserveCapture 5000 14 False ''party'' [''party'' \<mapsto> held_event])))
     = Inr \<lparr>success = True, captureNumber = Some 7, message = None,
            event = Some (EventInfo 7 10 Active)\<rparr>"
  by (simp add: reserveCapture_def reserve_capture_def reserve_capture_on_def Let_def
        validateCapture_def isEventActive_def hasReachedLimit_def hasAvailableSlots_def
        shouldExpireEvent_def reserved_or_zero_def held_event_def party_event_def
        party_row_def select_single_def update_rows_def)


section \<open>Properties of the cleanup\<close>

subsection \<open>The loop over the events found\<close>

lemma expired_before_iff:
  "expired_before now r \<longleftrightarrow>
     row_status r = Expired \<and> (\<exists>g. gallery_expires_at r = Some g \<and> g < now)"
  by (auto simp: expired_before_def split: option.splits)

lemma events_clean_event:
  "events (fst (clean_event F ev acc))
     = update_rows (\<lambda>r. row_id r = row_id ev) (\<lambda>r. r\<lparr>row_status := Cleaned\<rparr>)
         (events (fst acc))"
  by (simp add: clean_event_def Let_def)

lemma events_fold_clean_event:
  "events (fst (fold (clean_event F) evs acc))
     = update_rows (\<lambda>r. row_id r \<in> row_id ` set evs) (\<lambda>r. r\<lparr>row_status := Cleaned\<rparr>)
         (events (fst acc))"
proof (induction evs arbitrary: acc)
  case Nil
  show ?case by (simp add: update_rows_def)
next
  case (Cons e evs)
  have "events (fst (fold (clean_event F) (e # evs) acc))
      = update_rows (\<lambda>r. row_id r \<in> row_id ` set evs) (\<lambda>r. r\<lparr>row_status := Cleaned\<rparr>)
          (update_rows (\<lambda>r. row_id r = row_id e) (\<lambda>r. r\<lparr>row_status := Cleaned\<rparr>)
             (events (fst acc)))"
    by (simp add: Cons.IH events_clean_event)
  also have "\<dots> = update_rows (\<lambda>r. row_id r = row_id e \<or> row_id r \<in> row_id ` set evs)
          (\<lambda>r. r\<lparr>row_status := Cleaned\<rparr>) (events (fst acc))"
    by (simp add: update_rows_def)
  finally show ?case by simp
qed

lemma others_clean_event:
  assumes "i \<noteq> row_id ev"
  shows "filter (\<lambda>c. event_id c = i) (captures (fst (clean_event F ev acc)))
           = filter (\<lambda>c. event_id c = i) (captures (fst acc))"
    and "filter (\<lambda>p. fst p = i) (photos (fst (clean_event F ev acc)))
           = filter (\<lambda>p. fst p = i) (photos (fst acc))"
    and "filter (\<lambda>z. fst z = i) (zips (fst (clean_event F ev acc)))
           = filter (\<lambda>z. fst z = i) (zips (fst acc))"
  using assms
  by (auto simp: clean_event_def Let_def intro!: filter_cong)

lemma others_fold_clean_event:
  assumes "i \<notin> row_id ` set evs"
  shows "filter (\<lambda>c. event_id c = i) (captures (fst (fold (clean_event F) evs acc)))
           = filter (\<lambda>c. event_id c = i) (captures (fst acc))"
    and "filter (\<lambda>p. fst p = i) (photos (fst (fold (clean_event F) evs acc)))
           = filter (\<lambda>p. fst p = i) (photos (fst acc))"
    and "filter (\<lambda>z. fst z = i) (zips (fst (fold (clean_event F) evs acc)))
           = filter (\<lambda>z. fst z = i) (zips (fst acc))"
  using assms
proof (induction evs arbitrary: acc)
  case Nil
  {
    case 1 show ?case by simp
  next
    case 2 show ?case by simp
  next
    case 3 show ?case by simp
  }
next
  case (Cons e evs)
  {
    case 1
    then have "i \<noteq> row_id e" "i \<notin> row_id ` set evs" by auto
    then show ?case using Cons.IH(1)[of "clean_event F e acc"] others_clean_event(1)[of i e F acc]
      by simp
  next
    case 2
    then have "i \<noteq> row_id e" "i \<notin> row_id ` set evs" by auto
    then show ?case using Cons.IH(2)[of "clean_event F e acc"] others_clean_event(2)[of i e F acc]
      by simp
  next
    case 3
    then have "i \<noteq> row_id e" "i \<notin> row_id ` set evs" by auto
    then show ?case using Cons.IH(3)[of "clean_event F e acc"] others_clean_event(3)[of i e F acc]
      by simp
  }
qed

lemma row_id_not_selected:
  assumes "distinct (map row_id tbl)" "r \<in> set tbl" "\<not> P r"
  shows "row_id r \<notin> row_id ` set (filter P tbl)"
proof
  assume "row_id r \<in> row_id ` set (filter P tbl)"
  then obtain r2 where r2: "r2 \<in> set tbl" "P r2" "row_id r2 = row_id r" by auto
  from assms(1) have "inj_on row_id (set tbl)" by (simp add: distinct_map)
  with r2 assms(2) have "r2 = r" by (auto dest: inj_onD)
  with r2 assms(3) show False by simp
qed


lemma auto_cleanup_events:
  "events (snd (auto_cleanup now fetchError F st))
     = (if fetchError then events st
        else update_rows
               (\<lambda>r. row_id r \<in> row_id ` set (filter (expired_before now) (events st)))
               (\<lambda>r. r\<lparr>row_status := Cleaned\<rparr>) (events st))"
  by (simp add: auto_cleanup_def Let_def events_fold_clean_event)

lemma update_rows_keeps:
  "r \<in> set tbl \<Longrightarrow> \<not> P r \<Longrightarrow> r \<in> set (update_rows P f tbl)"
  by (force simp: update_rows_def)

lemma auto_cleanup_untouched:
  assumes "distinct (map row_id (events st))" "r \<in> set (events st)"
    and "\<not> expired_before now r"
  shows "r \<in> set (events (snd (auto_cleanup now fetchError F st)))"
    and "filter (\<lambda>c. event_id c = row_id r) (captures (snd (auto_cleanup now fetchError F st)))
           = filter (\<lambda>c. event_id c = row_id r) (captures st)"
    and "filter (\<lambda>p. fst p = row_id r) (photos (snd (auto_cleanup now fetchError F st)))
           = filter (\<lambda>p. fst p = row_id r) (photos st)"
    and "filter (\<lambda>z. fst z = row_id r) (zips (snd (auto_cleanup now fetchError F st)))
           = filter (\<lambda>z. fst z = row_id r) (zips st)"
proof -
  have n: "row_id r \<notin> row_id ` set (filter (expired_before now) (events st))"
    using assms by (rule row_id_not_selected)
  show "r \<in> set (events (snd (auto_cleanup now fetchError F st)))"
    using n assms(2) by (simp add: auto_cleanup_events update_rows_keeps)
  show "filter (\<lambda>c. event_id c = row_id r) (captures (snd (auto_cleanup now fetchError F st)))
           = filter (\<lambda>c. event_id c = row_id r) (captures st)"
    using others_fold_clean_event(1)[OF n, of F "(st, no_cleanup)"]
    by (simp add: auto_cleanup_def Let_def)
  show "filter (\<lambda>p. fst p = row_id r) (photos (snd (auto_cleanup now fetchError F st)))
           = filter (\<lambda>p. fst p = row_id r) (photos st)"
    using others_fold_clean_event(2)[OF n, of F "(st, no_cleanup)"]
    by (simp add: auto_cleanup_def Let_def)
  show "filter (\<lambda>z. fst z = row_id r) (zips (snd (auto_cleanup now fetchError F st)))
           = filter (\<lambda>z. fst z = row_id r) (zips st)"
    using others_fold_clean_event(3)[OF n, of F "(st, no_cleanup)"]
    by (simp add: auto_cleanup_def Let_def)
qed

lemma auto_cleanup_changed:
  assumes "distinct (map row_id (events st))"
    and "r' \<in> set (events (snd (auto_cleanup now fetchError F st)))"
  shows "r' \<in> set (events st)
       \<or> (\<exists>r\<in>set (events st). expired_before now r \<and> r' = r\<lparr>row_status := Cleaned\<rparr>)"
proof (cases fetchError)
  case True
  with assms(2) show ?thesis by (simp add: auto_cleanup_events)
next
  case False
  with assms(2) obtain r where r: "r \<in> set (events st)"
    "r' = (if row_id r \<in> row_id ` set (filter (expired_before now) (events st))
           then r\<lparr>row_status := Cleaned\<rparr> else r)"
    by (auto simp: auto_cleanup_events update_rows_def)
  show ?thesis
  proof (cases "expired_before now r")
    case True
    with r show ?thesis by auto
  next
    case False
    with r(1) assms(1)
    have "row_id r \<notin> row_id ` set (filter (expired_before now) (events st))"
      by (intro row_id_not_selected)
    with r show ?thesis by simp
  qed
qed

lemma nothing_left_to_clean:
  "filter (expired_before now) (events (snd (auto_cleanup now False F st))) = []"
proof -
  have "\<not> expired_before now r'"
    if "r' \<in> set (events (snd (auto_cleanup now False F st)))" for r'
  proof -
    from that obtain r where r: "r \<in> set (events st)"
      "r' = (if row_id r \<in> row_id ` set (filter (expired_before now) (events st))
             then r\<lparr>row_status := Cleaned\<rparr> else r)"
      by (auto simp: auto_cleanup_events update_rows_def)
    show ?thesis
    proof (cases "row_id r \<in> row_id ` set (filter (expired_before now) (events st))")
      case True
      with r show ?thesis by (simp add: expired_before_def)
    next
      case False
      with r(1) have "\<not> expired_before now r" by auto
      with False r show ?thesis by simp
    qed
  qed
  then show ?thesis by (simp add: filter_empty_conv)
qed

lemma auto_cleanup_second_run:
  "auto_cleanup now False F2 (snd (auto_cleanup now False F st))
     = ((200, CleanupDone no_cleanup),
        (snd (auto_cleanup now False F st))
          \<lparr>cleanup_logs := cleanup_logs (snd (auto_cleanup now False F st)) @ [no_cleanup]\<rparr>)"
  using nothing_left_to_clean[of now F st]
  by (simp add: auto_cleanup_def[of now False F2] Let_def)

lemma shouldCleanGallery_iff:
  "shouldCleanGallery now ev \<longleftrightarrow>
     status ev = Expired \<and> (\<exists>g. galleryExpiresAt ev = Some g \<and> g < now)"
  by (auto simp: shouldCleanGallery_def split: option.splits)


subsection \<open>C7: the cleanup touches lapsed galleries only\<close>

text \<open>
  C7.  The cleanup changes only events that are expired and whose gallery expiry lies
  strictly before \<open>now\<close>.  With the ids of the table distinct (the id is its primary key),
  an event that is not expired, or has no gallery expiry, or whose gallery expiry is \<open>now\<close>
  or later, keeps its row, its captures, its photos and its archive; and a row found after
  the run is either a row found before it or the cleaned copy of an expired row whose
  gallery expiry lay before \<open>now\<close>.  A second run at the same instant processes no event,
  deletes nothing and leaves events, captures, photos and archives as they are.  On the
  Firebase side \<open>shouldCleanGallery\<close> accepts only an expired event whose gallery expiry
  lies strictly before \<open>now\<close>.
\<close>

theorem C7_cleanup_touches_only_lapsed:
  "(distinct (map row_id (events st)) \<and> r \<in> set (events st)
      \<and> (row_status r \<noteq> Expired \<or> gallery_expires_at r = None
           \<or> (\<exists>g. gallery_expires_at r = Some g \<and> now \<le> g))
    \<longrightarrow> r \<in> set (events (snd (auto_cleanup now fetchError F st)))
      \<and> filter (\<lambda>c. event_id c = row_id r) (captures (snd (auto_cleanup now fetchError F st)))
          = filter (\<lambda>c. event_id c = row_id r) (captures st)
      \<and> filter (\<lambda>p. fst p = row_id r) (photos (snd (auto_cleanup now fetchError F st)))
          = filter (\<lambda>p. fst p = row_id r) (photos st)
      \<and> filter (\<lambda>z. fst z = row_id r) (zips (snd (auto_cleanup now fetchError F st)))
          = filter (\<lambda>z. fst z = row_id r) (zips st))
  \<and> (distinct (map row_id (events st))
      \<and> r' \<in> set (events (snd (auto_cleanup now fetchError F st)))
    \<longrightarrow> r' \<in> set (events st)
      \<or> (\<exists>r\<in>set (events st). row_status r = Expired
            \<and> (\<exists>g. gallery_expires_at r = Some g \<and> g < now)
            \<and> r' = r\<lparr>row_status := Cleaned\<rparr>))
  \<and> fst (auto_cleanup now False F2 (snd (auto_cleanup now False F st)))
      = (200, CleanupDone \<lparr>events_processed = 0, events_cleaned_success = 0,
                events_cleaned_failed = 0, total_photos_deleted = 0,
                total_zips_deleted = 0\<rparr>)
  \<and> events (snd (auto_cleanup now False F2 (snd (auto_cleanup now False F st))))
      = events (snd (auto_cleanup now False F st))
  \<and> captures (snd (auto_cleanup now False F2 (snd (auto_cleanup now False F st))))
      = captures (snd (auto_cleanup now False F st))
  \<and> photos (snd (auto_cleanup now False F2 (snd (auto_cleanup now False F st))))
      = photos (snd (auto_cleanup now False F st))
  \<and> zips (snd (auto_cleanup now False F2 (snd (auto_cleanup now False F st))))
      = zips (snd (auto_cleanup now False F st))
  \<and> (shouldCleanGallery now ev
    \<longrightarrow> status ev = Expired \<and> (\<exists>g. galleryExpiresAt ev = Some g \<and> g < now))"
proof (intro conjI impI)
  assume h: "distinct (map row_id (events st)) \<and> r \<in> set (events st)
      \<and> (row_status r \<noteq> Expired \<or> gallery_expires_at r = None
           \<or> (\<exists>g. gallery_expires_at r = Some g \<and> now \<le> g))"
  then have n: "\<not> expired_before now r"
    by (auto simp: expired_before_iff)
  note U = auto_cleanup_untouched[of st r now fetchError F]
  from h n U(1) show "r \<in> set (events (snd (auto_cleanup now fetchError F st)))" by blast
  from h n U(2)
  show "filter (\<lambda>c. event_id c = row_id r) (captures (snd (auto_cleanup now fetchError F st)))
          = filter (\<lambda>c. event_id c = row_id r) (captures st)" by blast
  from h n U(3)
  show "filter (\<lambda>p. fst p = row_id r) (photos (snd (auto_cleanup now fetchError F st)))
          = filter (\<lambda>p. fst p = row_id r) (photos st)" by blast
  from h n U(4)
  show "filter (\<lambda>z. fst z = row_id r) (zips (snd (auto_cleanup now fetchError F st)))
          = filter (\<lambda>z. fst z = row_id r) (zips st)" by blast
next
  assume "distinct (map row_id (events st))
      \<and> r' \<in> set (events (snd (auto_cleanup now fetchError F st)))"
  then show "r' \<in> set (events st)
      \<or> (\<exists>r\<in>set (events st). row_status r = Expired
            \<and> (\<exists>g. gallery_expires_at r = Some g \<and> g < now)
            \<and> r' = r\<lparr>row_status := Cleaned\<rparr>)"
    using auto_cleanup_changed[of st r' now fetchError F]
    by (simp add: expired_before_iff)
next
  assume "shouldCleanGallery now ev"
  then show "status ev = Expired" "\<exists>g. galleryExpiresAt ev = Some g \<and> g < now"
    by (simp_all add: shouldCleanGallery_iff)
qed (simp_all add: auto_cleanup_second_run no_cleanup_def)


theorem C7_cleanup_touches_only_lapsed_witness:
  "(distinct (map row_id (events cleanup_store))
      \<and> waiting_row \<in> set (events cleanup_store)
      \<and> gallery_expires_at waiting_row = Some 9000
      \<and> archived_row \<in> set (events cleanup_store)
      \<and> row_status archived_row = Cleaned)
   \<and> waiting_row \<in> set (events (snd (auto_cleanup 5000 False no_faults cleanup_store)))
   \<and> filter (\<lambda>c. event_id c = row_id waiting_row)
        (captures (snd (auto_cleanup 5000 False no_faults cleanup_store)))
       = filter (\<lambda>c. event_id c = row_id waiting_row) (captures cleanup_store)
   \<and> filter (\<lambda>p. fst p = row_id waiting_row)
        (photos (snd (auto_cleanup 5000 False no_faults cleanup_store)))
       = filter (\<lambda>p. fst p = row_id waiting_row) (photos cleanup_store)
   \<and> filter (\<lambda>z. fst z = row_id waiting_row)
        (zips (snd (auto_cleanup 5000 False no_faults cleanup_store)))
       = filter (\<lambda>z. fst z = row_id waiting_row) (zips cleanup_store)
   \<and> archived_row \<in> set (events (snd (auto_cleanup 5000 False no_faults cleanup_store)))
   \<and> due_row\<lparr>row_status := Cleaned\<rparr>
        \<in> set (events (snd (auto_cleanup 5000 False no_faults cleanup_store)))
   \<and> (due_row\<lparr>row_status := Cleaned\<rparr> \<in> set (events cleanup_store)
        \<or> (\<exists>r\<in>set (events cleanup_store). row_status r = Expired
              \<and> (\<exists>g. gallery_expires_at r = Some g \<and> g < 5000)
              \<and> due_row\<lparr>row_status := Cleaned\<rparr> = r\<lparr>row_status := Cleaned\<rparr>))
   \<and> shouldCleanGallery 5000 (party_event\<lparr>status := Expired, galleryExpiresAt := Some 100\<rparr>)
   \<and> status (party_event\<lparr>status := Expired, galleryExpiresAt := Some 100\<rparr>) = Expired"
proof -
  have d: "distinct (map row_id (events cleanup_store))"
    "waiting_row \<in> set (events cleanup_store)"
    "gallery_expires_at waiting_row = Some 9000"
    "archived_row \<in> set (events cleanup_store)"
    "row_status archived_row = Cleaned"
    by (simp_all add: cleanup_store_def due_row_def waiting_row_def archived_row_def
          party_row_def)
  have h1: "distinct (map row_id (events cleanup_store))
      \<and> waiting_row \<in> set (events cleanup_store)
      \<and> (row_status waiting_row \<noteq> Expired \<or> gallery_expires_at waiting_row = None
           \<or> (\<exists>g. gallery_expires_at waiting_row = Some g \<and> 5000 \<le> g))"
    using d by simp
  have h2: "distinct (map row_id (events cleanup_store))
      \<and> archived_row \<in> set (events cleanup_store)
      \<and> (row_status archived_row \<noteq> Expired \<or> gallery_expires_at archived_row = None
           \<or> (\<exists>g. gallery_expires_at archived_row = Some g \<and> 5000 \<le> g))"
    using d by simp
  have m: "due_row\<lparr>row_status := Cleaned\<rparr>
        \<in> set (events (snd (auto_cleanup 5000 False no_faults cleanup_store)))"
    by (simp add: auto_cleanup_events update_rows_def expired_before_def cleanup_store_def
          due_row_def waiting_row_def archived_row_def party_row_def)
  have h3: "distinct (map row_id (events cleanup_store))
      \<and> due_row\<lparr>row_status := Cleaned\<rparr>
        \<in> set (events (snd (auto_cleanup 5000 False no_faults cleanup_store)))"
    using d m by simp
  have h4: "shouldCleanGallery 5000
              (party_event\<lparr>status := Expired, galleryExpiresAt := Some 100\<rparr>)"
    by (simp add: shouldCleanGallery_def)
  note T1 = C7_cleanup_touches_only_lapsed[where st=cleanup_store and r=waiting_row
      and now=5000 and fetchError=False and F=no_faults
      and r'="due_row\<lparr>row_status := Cleaned\<rparr>"
      and ev="party_event\<lparr>status := Expired, galleryExpiresAt := Some 100\<rparr>"]
  note T2 = C7_cleanup_touches_only_lapsed[where st=cleanup_store and r=archived_row
      and now=5000 and fetchError=False and F=no_faults]
  note A = T1[THEN conjunct1, THEN mp, OF h1]
  note B = T2[THEN conjunct1, THEN mp, OF h2]
  note C = T1[THEN conjunct2, THEN conjunct1, THEN mp, OF h3]
  have E: "status (party_event\<lparr>status := Expired, galleryExpiresAt := Some 100\<rparr>) = Expired"
    using T1 h4 by blast
  from d A B[THEN conjunct1] m C h4 E show ?thesis by blast
qed


section \<open>Properties of the album archive\<close>

subsection \<open>The archive cache\<close>

lemma generate_album_zip_cached:
  assumes "eventId \<noteq> []" "givenToken \<noteq> []" "\<not> eventError"
    and "select_single (events st) eventId = Some ev"
    and "gallery_token ev = givenToken" "has_cloud_album ev" "row_status ev \<noteq> Cleaned"
    and "gallery_expires_at ev = None \<or> (\<exists>g. gallery_expires_at ev = Some g \<and> now \<le> g)"
    and "map_of (zips st) eventId = Some z"
  shows "generate_album_zip now eventError capturesError uploadError eventId givenToken st
      = ((200, \<lparr>zip_success = True,
                downloadUrl = Some (SignedUrl eventId (now + 86400 * 1000)),
                expiresAt = Some (now + 86400000),
                zip_message = Text ''Using cached ZIP''\<rparr>), st)"
  using assms by (auto simp: generate_album_zip_def)

lemma generateAlbumZip_fresh:
  assumes "eventId \<noteq> []" "givenToken \<noteq> []" "docs st eventId = Some ev"
    and "galleryToken ev = givenToken" "hasCloudAlbum ev" "status ev \<noteq> Cleaned"
    and "galleryExpiresAt ev = None \<or> (\<exists>g. galleryExpiresAt ev = Some g \<and> now \<le> g)"
    and "zip_files st eventId = Some z"
    and "now - (case timeCreated z of Some t \<Rightarrow> t | None \<Rightarrow> now) < 24 * (1000 * 60 * 60)"
  shows "generateAlbumZip now eventId givenToken st
      = (Inr \<lparr>zip_success = True,
              downloadUrl = Some (SignedUrl eventId (now + 24 * 60 * 60 * 1000)),
              expiresAt = Some (now + 24 * 60 * 60 * 1000),
              zip_message = Text ''Using cached ZIP''\<rparr>, st)"
  using assms by (auto simp: generateAlbumZip_def)

lemma generateAlbumZip_rebuild:
  assumes "eventId \<noteq> []" "givenToken \<noteq> []" "docs st eventId = Some ev"
    and "galleryToken ev = givenToken" "hasCloudAlbum ev" "status ev \<noteq> Cleaned"
    and "galleryExpiresAt ev = None \<or> (\<exists>g. galleryExpiresAt ev = Some g \<and> now \<le> g)"
    and "zip_files st eventId = None
       \<or> (\<exists>z. zip_files st eventId = Some z
             \<and> 24 * (1000 * 60 * 60)
                 \<le> now - (case timeCreated z of Some t \<Rightarrow> t | None \<Rightarrow> now))"
  shows "(\<exists>e. generateAlbumZip now eventId givenToken st = (Inl e, st))
       \<or> (\<exists>n c. 0 < n
            \<and> generateAlbumZip now eventId givenToken st
              = (Inr \<lparr>zip_success = True,
                      downloadUrl = Some (SignedUrl eventId (now + 24 * 60 * 60 * 1000)),
                      expiresAt = Some (now + 24 * 60 * 60 * 1000),
                      zip_message = ZipCreatedWith n\<rparr>,
                 st\<lparr>zip_files := (zip_files st)
                       (eventId \<mapsto> \<lparr>timeCreated = Some now, contents = c\<rparr>)\<rparr>))"
  using assms by (auto simp: generateAlbumZip_def Let_def)

subsection \<open>C8: the age of the cached archive\<close>

text \<open>
  C8.  The claim asks that an archive younger than 24 hours is served from the cache and
  that an absent or older archive is rebuilt.  The Firebase function does so
  (\<open>generateAlbumZip_fresh\<close> and \<open>generateAlbumZip_rebuild\<close> above).  The Supabase handler,
  whose header announces a cache of 24 hours, never looks at the age: whenever a URL can be
  signed for the archive it serves it.  Evaluated three days after the archive was built,
  the Supabase handler answers "Using cached ZIP" and leaves the archive of instant 0 in
  place, where the Firebase function rebuilds it.
\<close>

theorem C8_supabase_serves_stale_archive:
  "map_option created_at (map_of (zips stale_album) ''party'') = Some 0
   \<and> generate_album_zip 259200000 False False False ''party'' ''tok'' stale_album
       = ((200, \<lparr>zip_success = True,
                 downloadUrl = Some (SignedUrl ''party'' 345600000),
                 expiresAt = Some 345600000,
                 zip_message = Text ''Using cached ZIP''\<rparr>), stale_album)
   \<and> fst (generateAlbumZip 259200000 ''party'' ''tok'' stale_bucket)
       = Inr \<lparr>zip_success = True,
              downloadUrl = Some (SignedUrl ''party'' 345600000),
              expiresAt = Some 345600000,
              zip_message = ZipCreatedWith 1\<rparr>
   \<and> map_option timeCreated
        (zip_files (snd (generateAlbumZip 259200000 ''party'' ''tok'' stale_bucket)) ''party'')
       = Some (Some 259200000)"
  by (simp add: generate_album_zip_def generateAlbumZip_def stale_album_def stale_bucket_def
        select_single_def party_row_def party_event_def Let_def)

end
